theory Spec2Isabelle
  imports Complex_Main "HOL-Library.Sublist"
begin

section \<open>Text as the bot sees it\<close>

text \<open>
  A message text is a list of characters, each standing for one code unit of the
  JavaScript string; the development covers the texts whose code units lie below 256.
  \<open>upper_char\<close> and \<open>lower_char\<close> map a single code unit: the ASCII letters, and the
  accented letters from 192 to 222 and from 224 to 254 (the signs 215 and 247 between
  them are no letters). \<^verbatim>\<open>toUpperCase\<close> also turns the sharp s (223) into two
  capital S. The two letters whose capital lies beyond 255 (181, 255) are kept as they
  are: the program compares upper-cased text with ASCII words only, which they equal in
  neither form.
\<close>

definition upper_char :: "char \<Rightarrow> char" where
  "upper_char c =
     (if ((97::nat) \<le> of_char c \<and> of_char c \<le> (122::nat))
         \<or> ((224::nat) \<le> of_char c \<and> of_char c \<le> (254::nat) \<and> of_char c \<noteq> (247::nat))
      then char_of (of_char c - (32::nat)) else c)"

definition lower_char :: "char \<Rightarrow> char" where
  "lower_char c =
     (if ((65::nat) \<le> of_char c \<and> of_char c \<le> (90::nat))
         \<or> ((192::nat) \<le> of_char c \<and> of_char c \<le> (222::nat) \<and> of_char c \<noteq> (215::nat))
      then char_of (of_char c + (32::nat)) else c)"

definition toUpperCase :: "string \<Rightarrow> string" where
  "toUpperCase s =
     concat (map (\<lambda>c. if of_char c = (223::nat) then ''SS'' else [upper_char c]) s)"

definition toLowerCase :: "string \<Rightarrow> string" where
  "toLowerCase s = map lower_char s"

text \<open>\<^verbatim>\<open>s.includes(t)\<close>: \<open>t\<close> occurs in \<open>s\<close> as a contiguous run.\<close>

definition js_includes :: "string \<Rightarrow> string \<Rightarrow> bool" where
  "js_includes s t = sublist t s"

text \<open>
  White space as \<^verbatim>\<open>trim()\<close> and the class \<^verbatim>\<open>\s\<close> know it, among the code
  units below 256: tab, line feed, vertical tab, form feed, carriage return, space and
  the no-break space.
\<close>

definition is_space :: "char \<Rightarrow> bool" where
  "is_space c = (of_char c \<in> {9, 10, 11, 12, 13, 32, 160::nat})"

definition trim :: "string \<Rightarrow> string" where
  "trim s = rev (dropWhile is_space (rev (dropWhile is_space s)))"

section \<open>Regular expressions\<close>

text \<open>
  The patterns of the source use literal characters, the classes \<^verbatim>\<open>\d\<close>,
  \<^verbatim>\<open>\s\<close> and \<^verbatim>\<open>\S\<close>, repetition of a single character or class, optional
  groups, alternatives, and the assertions \<^verbatim>\<open>\b\<close>, \<^verbatim>\<open>^\<close> and \<^verbatim>\<open>$\<close>.
  \<^verbatim>\<open>test\<close> only asks whether some match exists, so a pattern is run from a position
  to the list of all positions where a match of it can end. A position is the character
  before it (if any) and the text after it.
\<close>

datatype cls = Only char | Digit | Space | NonSpace

datatype rx =
    Class cls
  | Rep cls nat "nat option"
  | Seq rx rx
  | Alt rx rx
  | Opt rx
  | Empty
  | Never
  | WordB
  | Bol
  | Eol

type_synonym pos = "char option \<times> string"

definition is_digit :: "char \<Rightarrow> bool" where
  "is_digit c = ((48::nat) \<le> of_char c \<and> of_char c \<le> (57::nat))"

definition is_word :: "char \<Rightarrow> bool" where
  "is_word c =
     (is_digit c \<or> ((65::nat) \<le> of_char c \<and> of_char c \<le> (90::nat))
      \<or> ((97::nat) \<le> of_char c \<and> of_char c \<le> (122::nat)) \<or> of_char c = (95::nat))"

text \<open>
  With the flag \<^verbatim>\<open>i\<close> (\<open>ic\<close>) two characters agree when their single-unit upper
  cases do; the sharp s, whose upper case has two units, stays as it is.
\<close>

fun cls_ok :: "bool \<Rightarrow> cls \<Rightarrow> char \<Rightarrow> bool" where
  "cls_ok ic (Only a) c = (if ic then upper_char c = upper_char a else c = a)"
| "cls_ok ic Digit c = is_digit c"
| "cls_ok ic Space c = is_space c"
| "cls_ok ic NonSpace c = (\<not> is_space c)"

definition advance :: "nat \<Rightarrow> pos \<Rightarrow> pos" where
  "advance j p =
     (if j = 0 then p else (Some (last (take j (snd p))), drop j (snd p)))"

definition at_boundary :: "pos \<Rightarrow> bool" where
  "at_boundary p =
     ((case fst p of None \<Rightarrow> False | Some c \<Rightarrow> is_word c)
      \<noteq> (case snd p of [] \<Rightarrow> False | c # _ \<Rightarrow> is_word c))"

fun ends :: "bool \<Rightarrow> rx \<Rightarrow> pos \<Rightarrow> pos list" where
  "ends ic (Class k) p =
     (case snd p of [] \<Rightarrow> [] | c # cs \<Rightarrow> if cls_ok ic k c then [(Some c, cs)] else [])"
| "ends ic (Rep k m n) p =
     (let run = length (takeWhile (cls_ok ic k) (snd p));
          most = (case n of None \<Rightarrow> run | Some n' \<Rightarrow> min n' run)
      in map (\<lambda>j. advance j p) [m ..< Suc most])"
| "ends ic (Seq a b) p = concat (map (ends ic b) (ends ic a p))"
| "ends ic (Alt a b) p = ends ic a p @ ends ic b p"
| "ends ic (Opt a) p = ends ic a p @ [p]"
| "ends ic Empty p = [p]"
| "ends ic Never p = []"
| "ends ic WordB p = (if at_boundary p then [p] else [])"
| "ends ic Bol p = (if fst p = None then [p] else [])"
| "ends ic Eol p = (if snd p = [] then [p] else [])"

fun starts :: "char option \<Rightarrow> string \<Rightarrow> pos list" where
  "starts prev [] = [(prev, [])]"
| "starts prev (c # cs) = (prev, c # cs) # starts (Some c) cs"

text \<open>\<^verbatim>\<open>re.test(s)\<close> for a pattern without the flag \<^verbatim>\<open>g\<close>.\<close>

definition regex_test :: "bool \<Rightarrow> rx \<Rightarrow> string \<Rightarrow> bool" where
  "regex_test ic r s = list_ex (\<lambda>p. ends ic r p \<noteq> []) (starts None s)"

fun lit :: "string \<Rightarrow> rx" where
  "lit [] = Empty"
| "lit [c] = Class (Only c)"
| "lit (c # cs) = Seq (Class (Only c)) (lit cs)"

fun seqs :: "rx list \<Rightarrow> rx" where
  "seqs [] = Empty"
| "seqs [r] = r"
| "seqs (r # rs) = Seq r (seqs rs)"

fun alts :: "rx list \<Rightarrow> rx" where
  "alts [] = Never"
| "alts [r] = r"
| "alts (r # rs) = Alt r (alts rs)"

text \<open>\<^verbatim>\<open>\s+\<close>, \<^verbatim>\<open>\s?\<close>, \<^verbatim>\<open>\d+\<close> and \<^verbatim>\<open>\d{m,n}\<close>.\<close>

definition sp1 :: rx where "sp1 = Rep Space 1 None"
definition sp_opt :: rx where "sp_opt = Rep Space 0 (Some 1)"
definition digits1 :: rx where "digits1 = Rep Digit 1 None"
definition digits :: "nat \<Rightarrow> nat \<Rightarrow> rx" where "digits m n = Rep Digit m (Some n)"

subsection \<open>The patterns of the source\<close>

definition AFFIRMATION_REGEX :: rx where
  "AFFIRMATION_REGEX =
     seqs [Bol,
       alts [lit ''bet'', lit ''alright bet'', lit ''bet!'',
             seqs [lit ''bet'', Rep (Only CHR ''.'') 0 None],
             seqs [lit ''bet'', Rep (Only CHR ''t'') 1 None],
             lit ''bet rn'', lit ''bet bro'', lit ''bet fam'', lit ''facts'', lit ''ok'',
             lit ''okie'', lit ''yep'', lit ''yup'', lit ''ya'', lit ''yah'', lit ''betty''],
       Eol]"

definition BETTING_SIGNAL_REGEX :: rx where
  "BETTING_SIGNAL_REGEX =
     seqs [WordB,
       alts [seqs [lit ''dm'', sp1, Opt (seqs [lit ''for'', sp1]), lit ''picks''],
             seqs [lit ''pm'', sp1, Opt (seqs [lit ''for'', sp1]), lit ''picks''],
             seqs [lit ''dmme'', sp1, lit ''for'', sp1, lit ''picks''],
             seqs [lit ''dm'', sp1, lit ''for'', sp1, lit ''pick''],
             seqs [lit ''sell'', Opt (lit ''ing''), sp1, lit ''picks''],
             seqs [lit ''picks'', sp1, lit ''for'', sp1, lit ''sale''],
             seqs [lit ''parlay'', Opt (lit ''s'')],
             lit ''sportsbook'',
             seqs [lit ''bookie'', Opt (lit ''s'')],
             lit ''parlaytip'',
             seqs [lit ''parlay'', sp1, lit ''tips''],
             lit ''tipster'',
             seqs [lit ''selling'', sp1, lit ''picks''],
             seqs [lit ''dm'', sp1, lit ''for'', sp1, lit ''picks''],
             seqs [lit ''nba'', sp1, lit ''picks''],
             seqs [lit ''nba'', sp1, lit ''pick''],
             lit ''nbapicks'',
             seqs [lit ''nba'', sp1, lit ''parlay''],
             seqs [lit ''mlb'', sp1, lit ''picks''],
             seqs [lit ''nba'', sp1, lit ''parlays'']],
       WordB]"

text \<open>
  \<^verbatim>\<open>BETTING_LIKELY_REGEX\<close> has no flag. Its euro sign is not a code unit below 256 and
  matches no character of the texts covered here; the pound sign is the code unit 163.
\<close>

definition BETTING_LIKELY_REGEX :: rx where
  "BETTING_LIKELY_REGEX =
     seqs [WordB,
       alts [seqs [lit ''$'', sp_opt, digits 1 6, Opt (seqs [lit ''.'', digits 1 2])],
             seqs [digits 1 6, sp_opt,
                   alts [lit ''USD'', lit ''usd'', lit ''$'', Never,
                         Class (Only (char_of (163::nat)))]],
             lit ''moneyline'', lit ''ml'', lit ''odds'', lit ''spread'', lit ''over'',
             lit ''under'', lit ''o/u'', lit ''parlay'', lit ''vig'', lit ''juice'',
             seqs [lit ''+'', digits 1 3],
             seqs [lit ''-'', digits 1 3]],
       WordB]"

definition NSFW_KEYWORDS :: "string list" where
  "NSFW_KEYWORDS =
     [''porn'', ''pornography'', ''xxx'', ''nsfw'', ''camgirl'', ''cams'', ''nude'', ''nudes'',
      ''sex'', ''pornhub'', ''xvideos'', ''xhamster'', ''adult'', ''explicit'', ''breast'',
      ''cock'', ''pussy'']"

text \<open>
  \<^verbatim>\<open>new RegExp('\\b(' + keywords.join('|') + ')\\b', 'i')\<close>; the escaping step leaves
  these keywords, which are letters only, as they are.
\<close>

definition keyword_regex :: "string list \<Rightarrow> rx" where
  "keyword_regex ks = seqs [WordB, alts (map lit ks), WordB]"

definition NSFW_REGEX :: rx where
  "NSFW_REGEX = keyword_regex NSFW_KEYWORDS"

definition SPAM_LINKS_REGEX :: rx where
  "SPAM_LINKS_REGEX =
     seqs [WordB, lit ''http'', Opt (lit ''s''), lit ''://'', Rep NonSpace 1 None, WordB]"

definition HATE_KEYWORDS :: "string list" where
  "HATE_KEYWORDS =
     [''nigger'', ''chink'', ''kike'', ''spic'', ''wetback'', ''gook'', ''raghead'', ''honky'',
      ''faggot'', ''fag'', ''coon'', ''paki'']"

definition HATE_REGEX :: rx where
  "HATE_REGEX = keyword_regex HATE_KEYWORDS"

definition HATE_ALLOWLIST :: "string list" where
  "HATE_ALLOWLIST = [''nigga'', ''sweats'', ''sweat'', ''sweaties'', ''sweaty'']"

definition MATCH_ALLOWED_PREFIX_REGEX :: rx where
  "MATCH_ALLOWED_PREFIX_REGEX =
     seqs [Bol, Rep Space 0 None,
       alts [seqs [lit ''code'', Opt (lit ''s''), WordB],
             lit ''code?'',
             seqs [lit ''5'', Alt (lit ''.'') WordB],
             seqs [lit ''s'', Alt (lit ''.'') WordB]]]"

definition MATCH_HEURISTIC_REGEX :: rx where
  "MATCH_HEURISTIC_REGEX =
     seqs [WordB,
       alts [lit ''lf5'', lit ''lfg'', lit ''looking for 5v5'', lit ''looking for 5'',
             lit ''looking for players'', lit ''looking for a team'',
             seqs [lit ''need'', sp1, digits1, sp1, Opt (seqs [lit ''more'', sp1]),
                   alts [lit ''players'', lit ''people'', lit ''people'']],
             seqs [lit ''need'', sp1, digits1, WordB],
             seqs [lit ''need'', sp1, digits1, sp1, lit ''more''],
             lit ''5v5'', lit ''5v5s'',
             seqs [lit ''team'', sp1, lit ''of'', sp1, lit ''5''],
             seqs [lit ''need'', sp1, lit ''4''], seqs [lit ''need'', sp1, lit ''3''],
             seqs [lit ''need'', sp1, lit ''2''], seqs [lit ''need'', sp1, lit ''1''],
             seqs [lit ''need'', sp1, lit ''4'', sp1, lit ''more''],
             seqs [lit ''want'', sp1, lit ''5v5'']],
       WordB]"

section \<open>Configuration and state\<close>

datatype category = OK | FLAG_HATE | FLAG_NSFW | FLAG_BET | FLAG_SPAM

text \<open>
  The constants read from the environment at start-up. \<open>openai\<close> says whether the
  classification client exists (\<^verbatim>\<open>OPENAI_API_KEY\<close> was set).
\<close>

record config =
  MAX_OPENAI_PER_MIN :: int
  CONCURRENCY :: int
  CACHE_TTL_MS :: int
  PERM_MUTE_THRESHOLD :: int
  STRIKE_DECAY_DAYS :: int
  SAMPLE_RATE :: real
  ADMIN_USER_ID :: string
  AD_CHANNEL_ID :: string
  MATCH_CHANNEL_ID :: string
  openai :: bool

definition SPAM_WINDOW_MS :: int where "SPAM_WINDOW_MS = 10 * 1000"
definition SPAM_THRESHOLD :: nat where "SPAM_THRESHOLD = 5"
definition REPEAT_THRESHOLD :: nat where "REPEAT_THRESHOLD = 3"
definition AUTO_MUTE_MINUTES :: int where "AUTO_MUTE_MINUTES = 10"

text \<open>What a classification yields, and what the cache keeps of it.\<close>

record result =
  flagged :: bool
  category :: category

record cache_entry = result +
  ts :: int

datatype channel_type =
  GuildText | GuildForum | PublicThread | PrivateThread | AnnouncementThread | OtherChannel

text \<open>
  An inbound message, with what the handler reads of its guild and member:
  \<open>m_guild\<close> is the guild's id (\<open>None\<close> for a direct message), \<open>m_member\<close> whether
  \<^verbatim>\<open>message.member\<close> is there, \<open>m_quarantined\<close>, \<open>m_moderator\<close> and \<open>m_manager\<close>
  what the role cache and the permissions say of the member.
\<close>

record message =
  m_id :: string
  m_guild :: "string option"
  m_author :: string
  m_bot :: bool
  m_member :: bool
  m_channel :: string
  m_channel_type :: channel_type
  m_content :: string
  m_quarantined :: bool
  m_moderator :: bool
  m_manager :: bool
  m_attachments :: "string list"

text \<open>
  A row of the strike table. The source passes guild, user, category, reason, message
  and actor; \<open>createdAt\<close> and \<open>pardoned\<close> are filled in by the database.
\<close>

record strike_row =
  s_guildId :: string
  s_userId :: string
  s_category :: category
  s_reason :: string
  s_messageId :: string
  s_actorId :: string
  createdAt :: int
  pardoned :: bool

record ticket_row =
  t_channelId :: string
  t_guildId :: string
  t_ownerId :: string
  t_subject :: string
  closedAt :: "int option"

record recent =
  r_content :: string
  r_ts :: int

text \<open>
  The classification service, the database and the chat platform are outside the
  program. A request to the service either throws or returns a text; both call
  strategies (\<^verbatim>\<open>chat.completions.create\<close> and \<^verbatim>\<open>responses.create\<close>) are given by
  the environment, together with the clock and the random number a run reads, and with
  which of the other outside operations fail during the run.
\<close>

datatype 'a outcome = Throws | Returns 'a

datatype request = Moderation string | Verification string category

datatype op =
    DbCreateStrike | DbCountStrikes | EnsureMutedRole | RolesAdd | RolesRemove
  | MessageDelete | SetupGuild | DbFindOpenTicket | DbCloseTicket | EnsureCategory
  | ChannelsCreate | ChannelDelete | ChannelSend | ModLogSend | DmSend

datatype db_outcome = Inserted | UniqueViolation | OtherError

text \<open>
  Ticket creation waits for the platform while it creates a channel. What other
  requests have committed by then is \<open>concurrent_tickets\<close> and \<open>concurrent_channels\<close>;
  \<open>new_channel\<close> is the id the platform gives the created channel, \<open>ticket_insert\<close>
  and \<open>ticket_insert_retry\<close> are what the database answers to the first and to the
  second insert of the ticket row.
\<close>

record env =
  now :: int
  random :: real
  chat_completions :: "request \<Rightarrow> string outcome"
  responses :: "request \<Rightarrow> string outcome"
  fails :: "op \<Rightarrow> bool"
  new_channel :: string
  concurrent_tickets :: "ticket_row list"
  concurrent_channels :: "string list"
  ticket_insert :: db_outcome
  ticket_insert_retry :: db_outcome

text \<open>
  What the program does to the outside world, in the order it does it. The creation of
  a channel, the header of a ticket and a change of the Muted role are recorded when
  they have been made; every other outside operation is recorded when it is asked for,
  whether or not it then fails. A call of
  \<^verbatim>\<open>logDetailed\<close> is recorded with its event and its action (empty when the entry
  has none); whether the entry is then shown depends on its severity and is not followed
  further.
\<close>

datatype effect =
    LogDetailed string string
  | ChatCompletions request
  | Responses request
  | Delete string
  | SendDM string
  | MutedRoleAdd string string
  | UnmuteTimer string string int
  | MutedRoleRemove string string
  | QuarantinedRoleRemove string string
  | StrikeCreate string string category
  | StrikeCount string string
  | SetupGuildRun string
  | ChannelCreate string
  | ChannelDeleteRun string
  | TicketInsert string
  | TicketClose string
  | TicketHeader string

text \<open>
  The module-level variables (rate limiter, queue, cache, recent messages, quarantine
  map, log channels, ticket locks), the two tables of the database, of the platform the
  members holding the Muted role and the channels that exist, and the pending timers of
  \<^verbatim>\<open>muteMember\<close>, each with guild, user and the time it is due. A queued item is the
  message whose handler waits for it. Keys written \<^verbatim>\<open>guildId:userId\<close> in the source
  are pairs.
\<close>

record bot =
  windowStart :: int
  callsThisWindow :: int
  activeCalls :: int
  pendingQueue :: "message list"
  messageCache :: "string \<Rightarrow> cache_entry option"
  recentMessages :: "string \<times> string \<Rightarrow> recent list"
  quarantineMap :: "string \<times> string \<Rightarrow> int option"
  logChannels :: "string list"
  ticketCreationLocks :: "(string \<times> string) list"
  strikes :: "strike_row list"
  tickets :: "ticket_row list"
  mutedRole :: "(string \<times> string) list"
  unmuteTimers :: "(string \<times> string \<times> int) list"
  channels :: "string list"
  trace :: "effect list"

definition emit :: "effect \<Rightarrow> bot \<Rightarrow> bot" where
  "emit e b = b\<lparr>trace := trace b @ [e]\<rparr>"

definition logDetailed :: "string \<Rightarrow> bot \<Rightarrow> bot" where
  "logDetailed event b = emit (LogDetailed event []) b"

definition logAction :: "string \<Rightarrow> string \<Rightarrow> bot \<Rightarrow> bot" where
  "logAction event action b = emit (LogDetailed event action) b"

section \<open>Rate limit and cache\<close>

definition cacheGet :: "config \<Rightarrow> env \<Rightarrow> string \<Rightarrow> bot \<Rightarrow> cache_entry option \<times> bot" where
  "cacheGet cfg ev content b =
     (case messageCache b content of
        None \<Rightarrow> (None, b)
      | Some e \<Rightarrow>
          if now ev - ts e > CACHE_TTL_MS cfg
          then (None, b\<lparr>messageCache := (messageCache b)(content := None)\<rparr>)
          else (Some e, b))"

definition cacheSet :: "env \<Rightarrow> string \<Rightarrow> bool \<Rightarrow> category \<Rightarrow> bot \<Rightarrow> bot" where
  "cacheSet ev content f c b =
     b\<lparr>messageCache := (messageCache b)(content \<mapsto> \<lparr>flagged = f, category = c, ts = now ev\<rparr>)\<rparr>"

definition allowOpenAICall :: "config \<Rightarrow> env \<Rightarrow> bot \<Rightarrow> bool \<times> bot" where
  "allowOpenAICall cfg ev b =
     (let b1 = (if now ev - windowStart b \<ge> 60000
                then b\<lparr>windowStart := now ev, callsThisWindow := 0\<rparr> else b)
      in if callsThisWindow b1 \<ge> MAX_OPENAI_PER_MIN cfg then (False, b1)
         else (True, b1\<lparr>callsThisWindow := callsThisWindow b1 + 1\<rparr>))"

section \<open>The classification gateway\<close>

text \<open>
  Both gateways ask the service the same way: the chat-completions strategy first and,
  when that throws, the responses strategy; the text that comes back is trimmed. When
  both throw, the caller's \<^verbatim>\<open>catch (err2)\<close> branch runs.
\<close>

definition callBothStrategies :: "env \<Rightarrow> request \<Rightarrow> bot \<Rightarrow> string outcome \<times> bot" where
  "callBothStrategies ev rq b =
     (let b1 = emit (ChatCompletions rq) b in
      case chat_completions ev rq of
        Returns t \<Rightarrow> (Returns (trim t), b1)
      | Throws \<Rightarrow>
          (let b2 = emit (Responses rq) b1 in
           case responses ev rq of
             Returns t \<Rightarrow> (Returns (trim t), b2)
           | Throws \<Rightarrow> (Throws, b2)))"

text \<open>Lines 277 to 291 of \<^verbatim>\<open>performOpenAICall\<close>: from the raw answer to a category.\<close>

definition classifyOutput :: "string \<Rightarrow> category" where
  "classifyOutput raw =
     (let out = toUpperCase raw in
      if js_includes out ''FLAG_HATE'' then FLAG_HATE
      else if js_includes out ''FLAG_NSFW'' then FLAG_NSFW
      else if js_includes out ''FLAG_BET'' then FLAG_BET
      else if js_includes out ''FLAG_SPAM'' then FLAG_SPAM
      else if out = ''OK'' \<or> js_includes out '' OK'' then OK
      else if js_includes out ''FLAG'' then FLAG_SPAM
      else OK)"

definition ok_result :: result where
  "ok_result = \<lparr>flagged = False, category = OK\<rparr>"

text \<open>
  \<^verbatim>\<open>performOpenAICall\<close> is an async function: \<open>Returns r\<close> is a promise resolved
  with \<open>r\<close>, \<open>Throws\<close> a rejected one. Nothing between the outer \<^verbatim>\<open>try\<close> and its
  \<^verbatim>\<open>catch\<close> throws once the raw text is there, so that handler has no branch here.
\<close>

definition performOpenAICall :: "config \<Rightarrow> env \<Rightarrow> string \<Rightarrow> bot \<Rightarrow> result outcome \<times> bot" where
  "performOpenAICall cfg ev content b =
     (case cacheGet cfg ev content b of
        (Some e, b1) \<Rightarrow> (Returns \<lparr>flagged = flagged e, category = category e\<rparr>, b1)
      | (None, b1) \<Rightarrow>
          (case allowOpenAICall cfg ev b1 of
             (False, b2) \<Rightarrow> (Returns ok_result, cacheSet ev content False OK b2)
           | (True, b2) \<Rightarrow>
               if \<not> openai cfg then (Returns ok_result, cacheSet ev content False OK b2)
               else
                 (case callBothStrategies ev (Moderation content) b2 of
                    (Throws, b3) \<Rightarrow> (Returns ok_result, cacheSet ev content False OK b3)
                  | (Returns raw, b3) \<Rightarrow>
                      (let c = classifyOutput raw; f = (c \<noteq> OK)
                       in (Returns \<lparr>flagged = f, category = c\<rparr>, cacheSet ev content f c b3)))))"

section \<open>The adjudication step\<close>

record verification =
  strike :: bool
  reason :: string

text \<open>\<^verbatim>\<open>raw.split(/\r?\n/)\<close>.\<close>

fun split_lines :: "string \<Rightarrow> string list" where
  "split_lines [] = [[]]"
| "split_lines [c] = (if c = CHR 0x0A then [[], []] else [[c]])"
| "split_lines (c # d # cs) =
     (if c = CHR 0x0D \<and> d = CHR 0x0A then [] # split_lines cs
      else if c = CHR 0x0A then [] # split_lines (d # cs)
      else (case split_lines (d # cs) of [] \<Rightarrow> [[c]] | l # ls \<Rightarrow> (c # l) # ls))"

fun join_space :: "string list \<Rightarrow> string" where
  "join_space [] = []"
| "join_space [l] = l"
| "join_space (l # ls) = l @ '' '' @ join_space ls"

text \<open>
  The lines after \<^verbatim>\<open>// parse response\<close> of \<^verbatim>\<open>verifyStrikeDecision\<close>:
  \<open>verdictLines\<close> is \<^verbatim>\<open>lines\<close>, \<open>firstLine\<close> is \<^verbatim>\<open>first\<close>.
\<close>

definition verdictLines :: "string \<Rightarrow> string list" where
  "verdictLines raw = filter (\<lambda>l. l \<noteq> []) (map trim (split_lines raw))"

definition firstLine :: "string \<Rightarrow> string" where
  "firstLine raw = toUpperCase (case verdictLines raw of [] \<Rightarrow> [] | l # _ \<Rightarrow> l)"

definition parseVerification :: "string \<Rightarrow> verification" where
  "parseVerification raw =
     (let first = firstLine raw;
          joined = take 200 (join_space (tl (verdictLines raw)));
          second = (if joined = [] then ''No reason provided'' else joined)
      in if js_includes first ''STRIKE'' then \<lparr>strike = True, reason = second\<rparr>
         else if js_includes first ''NO_STRIKE'' then \<lparr>strike = False, reason = second\<rparr>
         else \<lparr>strike = False,
               reason = ''ambiguous_verification_response_lenient: '' @ take 200 raw\<rparr>)"

definition verifyStrikeDecision ::
    "config \<Rightarrow> env \<Rightarrow> string \<Rightarrow> category \<Rightarrow> bot \<Rightarrow> verification \<times> bot" where
  "verifyStrikeDecision cfg ev text c b =
     (if \<not> openai cfg
      then (\<lparr>strike = False, reason = ''verification_unavailable_no_openai_lenient''\<rparr>, b)
      else
        (case allowOpenAICall cfg ev b of
           (False, b1) \<Rightarrow>
             (\<lparr>strike = False, reason = ''verification_unavailable_rate_limited_lenient''\<rparr>, b1)
         | (True, b1) \<Rightarrow>
             (case callBothStrategies ev (Verification text c) b1 of
                (Throws, b2) \<Rightarrow>
                  (\<lparr>strike = False, reason = ''verification_failed_both_calls_lenient''\<rparr>, b2)
              | (Returns raw, b2) \<Rightarrow> (parseVerification raw, b2))))"

section \<open>Strikes and mutes\<close>

text \<open>
  Modelled from the spec: the schema of the strike table is not among the sources. A
  strike is created unpardoned, stamped with the time of its creation, and counts as
  active while it is unpardoned and its creation time lies within the decay window.
\<close>

definition createStrike ::
    "env \<Rightarrow> string \<Rightarrow> string \<Rightarrow> category \<Rightarrow> string \<Rightarrow> string \<Rightarrow> bot \<Rightarrow> unit outcome \<times> bot" where
  "createStrike ev g u c why mid b =
     (let b1 = emit (StrikeCreate g u c) b in
      if fails ev DbCreateStrike then (Throws, b1)
      else (Returns (),
            b1\<lparr>strikes := strikes b1 @
                 [\<lparr>s_guildId = g, s_userId = u, s_category = c, s_reason = why,
                   s_messageId = mid, s_actorId = ''bot'', createdAt = now ev,
                   pardoned = False\<rparr>]\<rparr>))"

definition active_strikes :: "config \<Rightarrow> env \<Rightarrow> string \<Rightarrow> string \<Rightarrow> strike_row list \<Rightarrow> strike_row list" where
  "active_strikes cfg ev g u rows =
     (let cutoff = now ev - STRIKE_DECAY_DAYS cfg * 24 * 60 * 60 * 1000
      in filter (\<lambda>r. s_guildId r = g \<and> s_userId r = u \<and> \<not> pardoned r \<and> createdAt r > cutoff) rows)"

text \<open>
  The cutoff is handed to the query as a \<^verbatim>\<open>Date\<close>. A time value beyond
  8.64e15 milliseconds either side of the epoch is no valid date, and the query rejects.
\<close>

definition valid_date :: "int \<Rightarrow> bool" where
  "valid_date t = (- 8640000000000000 \<le> t \<and> t \<le> 8640000000000000)"

definition countActiveStrikes :: "config \<Rightarrow> env \<Rightarrow> string \<Rightarrow> string \<Rightarrow> bot \<Rightarrow> int outcome \<times> bot" where
  "countActiveStrikes cfg ev g u b =
     (let b1 = emit (StrikeCount g u) b;
          cutoff = now ev - STRIKE_DECAY_DAYS cfg * 24 * 60 * 60 * 1000
      in if \<not> valid_date cutoff \<or> fails ev DbCountStrikes then (Throws, b1)
         else (Returns (int (length (active_strikes cfg ev g u (strikes b1)))), b1))"

text \<open>
  \<^verbatim>\<open>muteMember\<close> and \<^verbatim>\<open>muteMemberForever\<close> take \<^verbatim>\<open>message.member\<close>, here the
  guild and user ids when the member is there and \<open>None\<close> when it is \<^verbatim>\<open>null\<close>
  (reading a property of \<^verbatim>\<open>null\<close> throws).
\<close>

definition muteMember :: "env \<Rightarrow> (string \<times> string) option \<Rightarrow> int \<Rightarrow> bot \<Rightarrow> unit outcome \<times> bot" where
  "muteMember ev member minutes b =
     (case member of
        None \<Rightarrow> (Throws, b)
      | Some (g, u) \<Rightarrow>
          if fails ev EnsureMutedRole then (Throws, b)
          else if fails ev RolesAdd then (Returns (), logDetailed ''member.mute_failed'' b)
          else
            (let b1 = logDetailed ''member.muted''
                        ((emit (MutedRoleAdd g u) b)\<lparr>mutedRole := (g, u) # mutedRole b\<rparr>);
                 b2 = emit (UnmuteTimer g u minutes) b1
             in (Returns (),
                 b2\<lparr>unmuteTimers := unmuteTimers b2 @ [(g, u, now ev + minutes * 60 * 1000)]\<rparr>)))"

text \<open>
  The callback of the timer that \<^verbatim>\<open>muteMember\<close> sets: the role is taken away (a
  failure to do so is swallowed) and the entry \<open>member.unmuted\<close> is logged.
\<close>

definition unmuteCallback :: "env \<Rightarrow> string \<Rightarrow> string \<Rightarrow> bot \<Rightarrow> bot" where
  "unmuteCallback ev g u b =
     logDetailed ''member.unmuted''
       (if fails ev RolesRemove then b
        else (emit (MutedRoleRemove g u) b)\<lparr>mutedRole := removeAll (g, u) (mutedRole b)\<rparr>)"

text \<open>The timers that are due at the time of the environment fire, the earliest first.\<close>

definition fireTimers :: "env \<Rightarrow> bot \<Rightarrow> bot" where
  "fireTimers ev b =
     (let due = sort_key (\<lambda>(g, u, t). t) (filter (\<lambda>(g, u, t). t \<le> now ev) (unmuteTimers b));
          later = filter (\<lambda>(g, u, t). \<not> t \<le> now ev) (unmuteTimers b)
      in fold (\<lambda>(g, u, t) s. unmuteCallback ev g u s) due (b\<lparr>unmuteTimers := later\<rparr>))"

definition muteMemberForever :: "env \<Rightarrow> (string \<times> string) option \<Rightarrow> bot \<Rightarrow> unit outcome \<times> bot" where
  "muteMemberForever ev member b =
     (case member of
        None \<Rightarrow> (Throws, b)
      | Some (g, u) \<Rightarrow>
          if fails ev EnsureMutedRole then (Returns (), logDetailed ''member.mute_forever_failed'' b)
          else if (g, u) \<notin> set (mutedRole b) then
            (if fails ev RolesAdd then (Returns (), logDetailed ''member.mute_forever_failed'' b)
             else (Returns (),
                   logDetailed ''member.muted_forever''
                     ((emit (MutedRoleAdd g u) b)\<lparr>mutedRole := (g, u) # mutedRole b\<rparr>)))
          else (Returns (), logDetailed ''member.already_muted_forever'' b))"

definition member_of :: "string \<Rightarrow> message \<Rightarrow> (string \<times> string) option" where
  "member_of g m = (if m_member m then Some (g, m_author m) else None)"

text \<open>
  The body of the inner \<^verbatim>\<open>try\<close> of \<^verbatim>\<open>decideAndApplyStrike\<close>: create the strike,
  count, log, mute. Its first throw ends it.
\<close>

definition applyStrike :: "config \<Rightarrow> env \<Rightarrow> string \<Rightarrow> message \<Rightarrow> category \<Rightarrow> bot \<Rightarrow> unit outcome \<times> bot" where
  "applyStrike cfg ev g m c b =
     (case createStrike ev g (m_author m) c ''auto-moderation - message flagged (verified)'' (m_id m) b of
        (Throws, b1) \<Rightarrow> (Throws, b1)
      | (Returns _, b1) \<Rightarrow>
          (case countActiveStrikes cfg ev g (m_author m) b1 of
             (Throws, b2) \<Rightarrow> (Throws, b2)
           | (Returns count, b2) \<Rightarrow>
               (let b3 = logDetailed ''strike.recorded'' b2 in
                if count \<ge> PERM_MUTE_THRESHOLD cfg then muteMemberForever ev (member_of g m) b3
                else if c = FLAG_HATE \<or> c = FLAG_NSFW
                  then muteMember ev (member_of g m) (AUTO_MUTE_MINUTES * 3) b3
                else (Returns (), b3))))"

definition decideAndApplyStrike :: "config \<Rightarrow> env \<Rightarrow> string \<Rightarrow> message \<Rightarrow> category \<Rightarrow> bot \<Rightarrow> bot" where
  "decideAndApplyStrike cfg ev g m c b =
     (case verifyStrikeDecision cfg ev (m_content m) c b of
        (v, b1) \<Rightarrow>
          (let b2 = logDetailed ''openai.verification'' b1 in
           if strike v then
             (case applyStrike cfg ev g m c b2 of
                (Throws, b3) \<Rightarrow> logDetailed ''strike.create_failed'' b3
              | (Returns _, b3) \<Rightarrow> b3)
           else logDetailed ''strike.skipped_by_verification'' b2))"

section \<open>The policy prefilter\<close>

definition shouldCheckByPolicy :: "config \<Rightarrow> env \<Rightarrow> string \<Rightarrow> channel_type \<Rightarrow> bool" where
  "shouldCheckByPolicy cfg ev text channelType =
     (if text = [] \<or> trim text = [] then False
      else
        (let c = trim text in
         if length c \<le> 20 \<and> regex_test True AFFIRMATION_REGEX c then False
         else if regex_test True BETTING_SIGNAL_REGEX c then True
         else if regex_test False BETTING_LIKELY_REGEX c then True
         else if regex_test True NSFW_REGEX c \<or> regex_test True HATE_REGEX c then True
         else if length c > 120 \<and> regex_test True SPAM_LINKS_REGEX c then True
         else if channelType = GuildForum
           then random ev < max (1 / 1000) (SAMPLE_RATE cfg / 4)
         else random ev < SAMPLE_RATE cfg))"

section \<open>The message handler\<close>

text \<open>
  A run of the handler is taken as one step: what other handlers do while this one
  waits is not interleaved with it. A handler either finishes, or rejects, or stays
  suspended on a queued classification.
\<close>

datatype completion = Done | Rejected | Suspended

text \<open>
  The allowlist test, written out in the source at each place a hate flag is used: the
  lower-cased text contains an allowlisted word and no severe slur.
\<close>

definition hateAllowlistOnly :: "string \<Rightarrow> bool" where
  "hateAllowlistOnly text =
     (let low = toLowerCase text;
          hasAllow = list_ex (\<lambda>w. js_includes low w) HATE_ALLOWLIST;
          hasSevere = regex_test True HATE_REGEX low
      in hasAllow \<and> \<not> hasSevere)"

text \<open>
  \<^verbatim>\<open>sendDMWithRetries\<close>: the message is queued and sent, and the outcome is logged.
  The queue, the pause between two messages and the retries after a rate-limit answer
  are not followed: in the end the message is delivered or it is not.
\<close>

definition sendDMWithRetries :: "env \<Rightarrow> string \<Rightarrow> bot \<Rightarrow> bot" where
  "sendDMWithRetries ev u b =
     (let b1 = emit (SendDM u) b in
      if fails ev DmSend then logDetailed ''dm.failed'' b1 else logDetailed ''dm.sent'' b1)"

text \<open>\<^verbatim>\<open>try { await message.delete(); log deleted } catch { log delete_failed }\<close>.\<close>

definition deleteMessage :: "env \<Rightarrow> message \<Rightarrow> bot \<Rightarrow> bot" where
  "deleteMessage ev m b =
     (let b1 = emit (Delete (m_id m)) b in
      if fails ev MessageDelete then logAction ''message.process'' ''delete_failed'' b1
      else logAction ''message.process'' ''deleted'' b1)"

text \<open>
  What the handler does with the result of a fresh classification (from the allowlist
  safeguard to the end of the \<^verbatim>\<open>try\<close> block).
\<close>

definition applyClassification :: "config \<Rightarrow> env \<Rightarrow> string \<Rightarrow> message \<Rightarrow> result \<Rightarrow> bot \<Rightarrow> bot" where
  "applyClassification cfg ev g m res b =
     (let downgrade = (flagged res \<and> category res = FLAG_HATE \<and> hateAllowlistOnly (m_content m));
          res1 = (if downgrade then \<lparr>flagged = False, category = OK\<rparr> else res);
          b1 = (if downgrade then logDetailed ''hate_allowlist'' b else b)
      in if flagged res1 then
           decideAndApplyStrike cfg ev g m (category res1)
             (sendDMWithRetries ev (m_author m) (deleteMessage ev m b1))
         else logDetailed ''message.allowed'' b1)"

text \<open>
  \<^verbatim>\<open>processQueue\<close>: while a slot is free and the queue is not empty, take the first
  item, classify its text and resolve its promise, on which the handler that waits for
  it logs the result and goes on as for a direct call.
\<close>

fun drain :: "config \<Rightarrow> env \<Rightarrow> message list \<Rightarrow> bot \<Rightarrow> bot" where
  "drain cfg ev [] b = b"
| "drain cfg ev (m # q) b =
     (if activeCalls b < CONCURRENCY cfg then
        (case performOpenAICall cfg ev (m_content m)
                (b\<lparr>pendingQueue := q, activeCalls := activeCalls b + 1\<rparr>) of
           (r, b1) \<Rightarrow>
             (let res = (case r of Returns x \<Rightarrow> x | Throws \<Rightarrow> \<lparr>flagged = False, category = OK\<rparr>);
                  b2 = b1\<lparr>activeCalls := activeCalls b1 - 1\<rparr>;
                  b3 = (case m_guild m of
                          None \<Rightarrow> b2
                        | Some g \<Rightarrow>
                            applyClassification cfg ev g m res
                              (logDetailed ''openai.enqueue_result'' b2))
              in drain cfg ev q b3))
      else b)"

definition processQueue :: "config \<Rightarrow> env \<Rightarrow> bot \<Rightarrow> bot" where
  "processQueue cfg ev b = drain cfg ev (pendingQueue b) b"

definition enqueueOpenAICall :: "config \<Rightarrow> env \<Rightarrow> message \<Rightarrow> bot \<Rightarrow> bot" where
  "enqueueOpenAICall cfg ev m b = processQueue cfg ev (b\<lparr>pendingQueue := pendingQueue b @ [m]\<rparr>)"

text \<open>The end of the handler, from the check that the service is configured.\<close>

definition classifyFresh :: "config \<Rightarrow> env \<Rightarrow> string \<Rightarrow> message \<Rightarrow> bot \<Rightarrow> completion \<times> bot" where
  "classifyFresh cfg ev g m b =
     (if \<not> openai cfg then (Done, logDetailed ''openai.missing'' b)
      else
        (case allowOpenAICall cfg ev b of
           (False, b1) \<Rightarrow> (Done, logDetailed ''rate_limit'' b1)
         | (True, b1) \<Rightarrow>
             if activeCalls b1 < CONCURRENCY cfg then
               (case performOpenAICall cfg ev (m_content m)
                       (logDetailed ''openai.call.start'' (b1\<lparr>activeCalls := activeCalls b1 + 1\<rparr>)) of
                  (r, b2) \<Rightarrow>
                    (let b3 = processQueue cfg ev (b2\<lparr>activeCalls := activeCalls b2 - 1\<rparr>) in
                     case r of
                       Throws \<Rightarrow> (Done, logDetailed ''moderation_error'' b3)
                     | Returns res \<Rightarrow>
                         (Done, applyClassification cfg ev g m res
                                  (logDetailed ''openai.call.end'' b3))))
             else (Suspended, enqueueOpenAICall cfg ev m (logDetailed ''openai.enqueue'' b1))))"

text \<open>The branch taken when the cache holds a fresh entry for the text.\<close>

definition cacheHit :: "config \<Rightarrow> env \<Rightarrow> string \<Rightarrow> message \<Rightarrow> cache_entry \<Rightarrow> bot \<Rightarrow> bot" where
  "cacheHit cfg ev g m cached b =
     (let b1 = logDetailed ''cache.hit'' b in
      if flagged cached \<and> category cached = FLAG_HATE \<and> hateAllowlistOnly (m_content m)
        then logDetailed ''hate_allowlist_cache'' b1
      else if flagged cached then
        decideAndApplyStrike cfg ev g m (category cached)
          (sendDMWithRetries ev (m_author m) (deleteMessage ev m b1))
      else b1)"

text \<open>
  The precheck. The three keyword prefilters computed before it only choose the reason
  text of the log entry and are left out.
\<close>

definition precheck :: "config \<Rightarrow> env \<Rightarrow> string \<Rightarrow> message \<Rightarrow> bot \<Rightarrow> completion \<times> bot" where
  "precheck cfg ev g m b =
     (let shouldCheck = shouldCheckByPolicy cfg ev (m_content m) (m_channel_type m);
          b1 = logDetailed ''precheck'' b
      in if \<not> shouldCheck then (Done, b1) else classifyFresh cfg ev g m b1)"

subsection \<open>Flood detection\<close>

definition addRecentMessage :: "env \<Rightarrow> string \<Rightarrow> string \<Rightarrow> string \<Rightarrow> bot \<Rightarrow> recent list \<times> bot" where
  "addRecentMessage ev g u text b =
     (let arr = recentMessages b (g, u) @ [\<lparr>r_content = text, r_ts = now ev\<rparr>];
          arr1 = dropWhile (\<lambda>r. now ev - r_ts r > SPAM_WINDOW_MS) arr
      in (arr1, b\<lparr>recentMessages := (recentMessages b)((g, u) := arr1)\<rparr>))"

text \<open>
  \<^verbatim>\<open>freq\<close> is a plain object. For a text that names a property of
  \<^verbatim>\<open>Object.prototype\<close> the lookup yields that property, the sum is a string and
  the comparison with the threshold fails: such a text is never counted as a repeat.
\<close>

definition OBJECT_PROTOTYPE_KEYS :: "string list" where
  "OBJECT_PROTOTYPE_KEYS =
     [''constructor'', ''__defineGetter__'', ''__defineSetter__'', ''hasOwnProperty'',
      ''__lookupGetter__'', ''__lookupSetter__'', ''isPrototypeOf'', ''propertyIsEnumerable'',
      ''toString'', ''valueOf'', ''__proto__'', ''toLocaleString'']"

fun countRepeats :: "recent list \<Rightarrow> (string \<Rightarrow> nat) \<Rightarrow> bool" where
  "countRepeats [] freq = False"
| "countRepeats (r # rs) freq =
     (if r_content r \<in> set OBJECT_PROTOTYPE_KEYS then countRepeats rs freq
      else
        (let n = freq (r_content r) + 1 in
         if n \<ge> REPEAT_THRESHOLD then True else countRepeats rs (freq(r_content r := n))))"

definition checkSpam :: "recent list \<Rightarrow> bool" where
  "checkSpam arr = (if length arr \<ge> SPAM_THRESHOLD then True else countRepeats arr (\<lambda>_. 0))"

text \<open>
  The strike of the flood branch, inside its \<^verbatim>\<open>try\<close>: no adjudication is asked.
\<close>

definition spamStrike :: "config \<Rightarrow> env \<Rightarrow> string \<Rightarrow> message \<Rightarrow> bot \<Rightarrow> unit outcome \<times> bot" where
  "spamStrike cfg ev g m b =
     (case createStrike ev g (m_author m) FLAG_SPAM ''spam_detection'' (m_id m) b of
        (Throws, b1) \<Rightarrow> (Throws, b1)
      | (Returns _, b1) \<Rightarrow>
          (case countActiveStrikes cfg ev g (m_author m) b1 of
             (Throws, b2) \<Rightarrow> (Throws, b2)
           | (Returns count, b2) \<Rightarrow>
               (let b3 = logDetailed ''strike.recorded'' b2 in
                if count \<ge> PERM_MUTE_THRESHOLD cfg then muteMemberForever ev (member_of g m) b3
                else (Returns (), b3))))"

definition spamDetected :: "config \<Rightarrow> env \<Rightarrow> string \<Rightarrow> message \<Rightarrow> bot \<Rightarrow> completion \<times> bot" where
  "spamDetected cfg ev g m b =
     (let b1 = emit (Delete (m_id m)) b;
          b2 = (if fails ev MessageDelete then logAction ''message.process'' ''delete_failed'' b1 else b1);
          b3 = logAction ''message.process'' ''deleted'' b2
      in case muteMember ev (member_of g m) AUTO_MUTE_MINUTES b3 of
           (Throws, b4) \<Rightarrow> (Rejected, b4)
         | (Returns _, b4) \<Rightarrow>
             (case spamStrike cfg ev g m b4 of
                (Throws, b5) \<Rightarrow> (Done, logDetailed ''strike.error'' b5)
              | (Returns _, b5) \<Rightarrow> (Done, b5)))"

subsection \<open>Quarantined members and the matchmaking channel\<close>

text \<open>
  A flagged message of a quarantined member: delete, adjudicate, log, tell the author
  (here with \<^verbatim>\<open>message.author.send\<close>, whose failure is swallowed and not logged).
\<close>

definition quarantineFlagged :: "config \<Rightarrow> env \<Rightarrow> string \<Rightarrow> message \<Rightarrow> category \<Rightarrow> bot \<Rightarrow> bot" where
  "quarantineFlagged cfg ev g m c b =
     (let b1 = emit (Delete (m_id m)) b;
          b2 = (if fails ev MessageDelete then logAction ''message.process'' ''delete_failed'' b1 else b1);
          b3 = decideAndApplyStrike cfg ev g m c b2
      in emit (SendDM (m_author m)) (logAction ''message.process'' ''deleted'' b3))"

definition quarantineMonitor :: "config \<Rightarrow> env \<Rightarrow> string \<Rightarrow> message \<Rightarrow> bot \<Rightarrow> bot" where
  "quarantineMonitor cfg ev g m b =
     (let ts0 = (case quarantineMap b (g, m_author m) of
                   None \<Rightarrow> now ev
                 | Some t \<Rightarrow> if t = 0 then now ev else t);
          age = now ev - ts0
      in if age < 72 * 60 * 60 * 1000 then
           (case cacheGet cfg ev (m_content m) (logDetailed ''quarantine.monitor'' b) of
              (Some cached, b1) \<Rightarrow>
                if flagged cached \<and> category cached = FLAG_HATE \<and> hateAllowlistOnly (m_content m)
                  then logDetailed ''hate_allowlist_quarantine'' b1
                else if flagged cached then quarantineFlagged cfg ev g m (category cached) b1
                else b1
            | (None, b1) \<Rightarrow>
                (case allowOpenAICall cfg ev b1 of
                   (False, b2) \<Rightarrow> logDetailed ''openai.rate_limited'' b2
                 | (True, b2) \<Rightarrow>
                     (case performOpenAICall cfg ev (m_content m) b2 of
                        (Throws, b3) \<Rightarrow> logDetailed ''quarantine.openai_error'' b3
                      | (Returns res, b3) \<Rightarrow>
                          (let b4 = logDetailed ''openai.call.end'' b3 in
                           if flagged res \<and> category res = FLAG_HATE \<and> hateAllowlistOnly (m_content m)
                             then logDetailed ''hate_allowlist_quarantine'' b4
                           else if flagged res then quarantineFlagged cfg ev g m (category res) b4
                           else b4))))
         else
           (let b1 = emit (QuarantinedRoleRemove g (m_author m)) b in
            if fails ev RolesRemove then logDetailed ''role.remove_failed'' b1
            else logDetailed ''role.remove''
                   (b1\<lparr>quarantineMap := (quarantineMap b1)((g, m_author m) := None)\<rparr>)))"

text \<open>The matchmaking channel; \<open>True\<close> when the handler returns after it.\<close>

definition matchChannel :: "config \<Rightarrow> env \<Rightarrow> message \<Rightarrow> bot \<Rightarrow> bool \<times> bot" where
  "matchChannel cfg ev m b =
     (if m_channel m = MATCH_CHANNEL_ID cfg then
        (if m_moderator m \<or> m_manager m \<or> m_author m = ADMIN_USER_ID cfg
           then (False, logDetailed ''match_channel.bypass_mod'' b)
         else
           (let txt = trim (m_content m) in
            if regex_test True MATCH_ALLOWED_PREFIX_REGEX txt
              then (False, logDetailed ''match_channel.allowed'' b)
            else if regex_test True MATCH_HEURISTIC_REGEX txt
              then (False, logDetailed ''match_channel.allowed_heuristic'' b)
            else (True, sendDMWithRetries ev (m_author m) (deleteMessage ev m b))))
      else (False, b))"

text \<open>
  \<^verbatim>\<open>setupGuild\<close> creates roles and channels and then registers the log channel. It is
  taken as one outside operation, which either succeeds or fails before registering.
\<close>

definition setupGuild :: "env \<Rightarrow> string \<Rightarrow> bot \<Rightarrow> bot" where
  "setupGuild ev g b =
     (let b1 = emit (SetupGuildRun g) b in
      if fails ev SetupGuild then logDetailed ''setup.failed'' b1
      else b1\<lparr>logChannels := g # logChannels b1\<rparr>)"

subsection \<open>The handler\<close>

definition afterSpamCheck :: "config \<Rightarrow> env \<Rightarrow> string \<Rightarrow> message \<Rightarrow> bot \<Rightarrow> completion \<times> bot" where
  "afterSpamCheck cfg ev g m b =
     (case cacheGet cfg ev (m_content m) b of
        (Some cached, b1) \<Rightarrow> (Done, cacheHit cfg ev g m cached b1)
      | (None, b1) \<Rightarrow> precheck cfg ev g m b1)"

definition moderate :: "config \<Rightarrow> env \<Rightarrow> string \<Rightarrow> message \<Rightarrow> bot \<Rightarrow> completion \<times> bot" where
  "moderate cfg ev g m b =
     (let isForumChannel = (m_channel_type m = GuildForum);
          isThread = (m_channel_type m \<in> {PublicThread, PrivateThread, AnnouncementThread})
      in if \<not> isForumChannel \<and> \<not> isThread then
           (case addRecentMessage ev g (m_author m)
                   (if m_content m = [] then ''<embed/attachment>'' else m_content m) b of
              (arr, b1) \<Rightarrow>
                if checkSpam arr then spamDetected cfg ev g m b1
                else afterSpamCheck cfg ev g m b1)
         else afterSpamCheck cfg ev g m (logDetailed ''spam_check.skipped'' b))"

definition messageCreate :: "config \<Rightarrow> env \<Rightarrow> message \<Rightarrow> bot \<Rightarrow> completion \<times> bot" where
  "messageCreate cfg ev m b =
     (case m_guild m of
        None \<Rightarrow> (Done, b)
      | Some g \<Rightarrow>
          if m_bot m then (Done, b)
          else if m_author m = ADMIN_USER_ID cfg
            then (Done, logDetailed ''message.bypass_admin'' b)
          else
            (let b1 = (if g \<in> set (logChannels b) then b else setupGuild ev g b);
                 b2 = logDetailed ''message.received'' b1
             in if m_channel m = AD_CHANNEL_ID cfg
                  then (Done, logDetailed ''ad_channel.allowed'' b2)
                else
                  (case matchChannel cfg ev m b2 of
                     (True, b3) \<Rightarrow> (Done, b3)
                   | (False, b3) \<Rightarrow>
                       if m_member m \<and> m_quarantined m
                         then (Done, quarantineMonitor cfg ev g m b3)
                       else moderate cfg ev g m b3)))"

section \<open>Ticket creation\<close>

definition getOpenTicketByOwner :: "string \<Rightarrow> string \<Rightarrow> bot \<Rightarrow> ticket_row option" where
  "getOpenTicketByOwner g u b =
     find (\<lambda>t. t_guildId t = g \<and> t_ownerId t = u \<and> closedAt t = None) (tickets b)"

text \<open>\<^verbatim>\<open>getOpenTicketByOwner(...).catch(() => null)\<close>.\<close>

definition openTicketOrNull :: "env \<Rightarrow> string \<Rightarrow> string \<Rightarrow> bot \<Rightarrow> ticket_row option" where
  "openTicketOrNull ev g u b =
     (if fails ev DbFindOpenTicket then None else getOpenTicketByOwner g u b)"

text \<open>
  \<^verbatim>\<open>guild.channels.cache.get(id) || await guild.channels.fetch(id).catch(() => null)\<close>:
  the channel, when it exists.
\<close>

definition channelExists :: "string \<Rightarrow> bot \<Rightarrow> bool" where
  "channelExists c b = (c \<in> set (channels b))"

definition closeTicketRow :: "env \<Rightarrow> string \<Rightarrow> bot \<Rightarrow> bot" where
  "closeTicketRow ev c b =
     (let b1 = emit (TicketClose c) b in
      if fails ev DbCloseTicket then b1
      else b1\<lparr>tickets := map (\<lambda>t. if t_channelId t = c then t\<lparr>closedAt := Some (now ev)\<rparr> else t)
                            (tickets b1)\<rparr>)"

definition insertTicketRow :: "string \<Rightarrow> string \<Rightarrow> string \<Rightarrow> string \<Rightarrow> bot \<Rightarrow> bot" where
  "insertTicketRow c g u subject b =
     b\<lparr>tickets := tickets b @
         [\<lparr>t_channelId = c, t_guildId = g, t_ownerId = u, t_subject = subject, closedAt = None\<rparr>]\<rparr>"

text \<open>
  The header message, the log entry and the note to the moderators' log. Sending to a
  channel that no longer exists throws.
\<close>

definition announceTicket :: "env \<Rightarrow> string \<Rightarrow> bot \<Rightarrow> string outcome \<times> bot" where
  "announceTicket ev c b =
     (if fails ev ChannelSend \<or> \<not> channelExists c b then (Throws, b)
      else
        (let b1 = logDetailed ''ticket.opened'' (emit (TicketHeader c) b) in
         if fails ev ModLogSend then (Throws, b1) else (Returns c, b1)))"

text \<open>
  The second, best-effort insert after a uniqueness violation; the created channel is
  kept and announced whatever the database answers.
\<close>

definition retryInsert :: "env \<Rightarrow> string \<Rightarrow> string \<Rightarrow> string \<Rightarrow> string \<Rightarrow> bot \<Rightarrow> string outcome \<times> bot" where
  "retryInsert ev c g u subject b =
     (let b1 = emit (TicketInsert c) b;
          b2 = (if ticket_insert_retry ev = Inserted then insertTicketRow c g u subject b1
                else logDetailed ''ticket.create_after_unique_failed'' b1)
      in announceTicket ev c b2)"

text \<open>The \<^verbatim>\<open>catch (dbErr)\<close> branch for a uniqueness violation of the first insert.\<close>

definition onUniqueViolation ::
    "env \<Rightarrow> string \<Rightarrow> string \<Rightarrow> string \<Rightarrow> string \<Rightarrow> bot \<Rightarrow> string outcome \<times> bot" where
  "onUniqueViolation ev c g u subject b =
     (let b1 = logDetailed ''ticket.db_unique_violation'' b in
      case openTicketOrNull ev g u b1 of
        None \<Rightarrow> retryInsert ev c g u subject b1
      | Some existing \<Rightarrow>
          if t_channelId existing \<noteq> [] \<and> t_channelId existing \<noteq> c then
            (let d = emit (ChannelDeleteRun c) b1;
                 b2 = (if fails ev ChannelDelete
                       then logDetailed ''ticket.channel_delete_failed'' d
                       else d\<lparr>channels := removeAll c (channels d)\<rparr>)
             in if channelExists (t_channelId existing) b2
                  then (Returns (t_channelId existing), b2)
                else retryInsert ev c g u subject b2)
          else retryInsert ev c g u subject b1)"

text \<open>
  The body of the \<^verbatim>\<open>try\<close> block of \<^verbatim>\<open>createTicketChannel\<close> from the category on.
  While the platform creates the channel, other requests may commit tickets and
  channels of their own.
\<close>

definition createFresh :: "env \<Rightarrow> string \<Rightarrow> string \<Rightarrow> string \<Rightarrow> bot \<Rightarrow> string outcome \<times> bot" where
  "createFresh ev g u subject b =
     (if fails ev EnsureCategory \<or> fails ev ChannelsCreate then (Throws, b)
      else
        (let c = new_channel ev;
             b1 = (emit (ChannelCreate c) b)
                    \<lparr>channels := c # channels b @ concurrent_channels ev,
                     tickets := tickets b @ concurrent_tickets ev\<rparr>;
             b2 = emit (TicketInsert c) b1
         in case ticket_insert ev of
              Inserted \<Rightarrow> announceTicket ev c (insertTicketRow c g u subject b2)
            | UniqueViolation \<Rightarrow> onUniqueViolation ev c g u subject b2
            | OtherError \<Rightarrow> (Throws, logDetailed ''ticket.create_db_error'' b2)))"

text \<open>The pre-check of the \<^verbatim>\<open>try\<close> block, then the creation.\<close>

definition createTicketBody ::
    "env \<Rightarrow> string \<Rightarrow> string \<Rightarrow> string \<Rightarrow> bot \<Rightarrow> string outcome \<times> bot" where
  "createTicketBody ev g u subject b =
     (if fails ev DbFindOpenTicket then (Throws, b)
      else
        (case getOpenTicketByOwner g u b of
           None \<Rightarrow> createFresh ev g u subject b
         | Some opened \<Rightarrow>
             if t_channelId opened \<noteq> [] then
               (if channelExists (t_channelId opened) b
                  then (Returns (t_channelId opened), logDetailed ''ticket.open_exists'' b)
                else createFresh ev g u subject (closeTicketRow ev (t_channelId opened) b))
             else createFresh ev g u subject b))"

text \<open>
  \<^verbatim>\<open>createTicketChannel\<close>, with the lock of the pair (the timer that drops a stale
  lock after thirty seconds is not followed) and its \<^verbatim>\<open>catch\<close> and \<^verbatim>\<open>finally\<close>.
\<close>

definition lockedCreate :: "env \<Rightarrow> string \<Rightarrow> string \<Rightarrow> string \<Rightarrow> bot \<Rightarrow> string outcome \<times> bot" where
  "lockedCreate ev g u subject b =
     (case createTicketBody ev g u subject
             (b\<lparr>ticketCreationLocks := List.insert (g, u) (ticketCreationLocks b)\<rparr>) of
        (r, b1) \<Rightarrow>
          (let b2 = (case r of Throws \<Rightarrow> logDetailed ''ticket.create_failed'' b1
                             | Returns _ \<Rightarrow> b1)
           in (r, b2\<lparr>ticketCreationLocks := removeAll (g, u) (ticketCreationLocks b2)\<rparr>)))"

definition createTicketChannel ::
    "env \<Rightarrow> string \<Rightarrow> string \<Rightarrow> string \<Rightarrow> bot \<Rightarrow> string outcome \<times> bot" where
  "createTicketChannel ev g u subject b =
     (if (g, u) \<in> set (ticketCreationLocks b) then
        (case openTicketOrNull ev g u b of
           None \<Rightarrow> lockedCreate ev g u subject b
         | Some existingAfter \<Rightarrow>
             if t_channelId existingAfter \<noteq> [] \<and> channelExists (t_channelId existingAfter) b
               then (Returns (t_channelId existingAfter), b)
             else lockedCreate ev g u subject b)
      else lockedCreate ev g u subject b)"

text \<open>The defaults of the source, and the state the module starts in at time \<open>t\<close>.\<close>

definition defaults :: "bool \<Rightarrow> config" where
  "defaults key =
     \<lparr>MAX_OPENAI_PER_MIN = 600, CONCURRENCY = 3, CACHE_TTL_MS = 10 * 60 * 1000,
      PERM_MUTE_THRESHOLD = 5, STRIKE_DECAY_DAYS = 30, SAMPLE_RATE = 2 / 100,
      ADMIN_USER_ID = ''637758147330572349'', AD_CHANNEL_ID = ''1120271059262906368'',
      MATCH_CHANNEL_ID = ''1031429142538895380'', openai = key\<rparr>"

definition initial_bot :: "int \<Rightarrow> bot" where
  "initial_bot t =
     \<lparr>windowStart = t, callsThisWindow = 0, activeCalls = 0, pendingQueue = [],
      messageCache = Map.empty, recentMessages = (\<lambda>_. []), quarantineMap = Map.empty,
      logChannels = [], ticketCreationLocks = [], strikes = [], tickets = [],
      mutedRole = [], unmuteTimers = [], channels = [], trace = []\<rparr>"

text \<open>
  An environment at time \<open>t\<close> whose service answers every request with the same text
  and where no outside operation fails.
\<close>

definition answering :: "int \<Rightarrow> string \<Rightarrow> env" where
  "answering t txt =
     \<lparr>now = t, random = 0, chat_completions = (\<lambda>_. Returns txt),
      responses = (\<lambda>_. Returns txt), fails = (\<lambda>_. False), new_channel = ''900'',
      concurrent_tickets = [], concurrent_channels = [], ticket_insert = Inserted,
      ticket_insert_retry = Inserted\<rparr>"


text \<open>A message of a present, unquarantined member in a text channel of guild 1.\<close>

definition sample_message :: "string \<Rightarrow> string \<Rightarrow> string \<Rightarrow> message" where
  "sample_message mid author text =
     \<lparr>m_id = mid, m_guild = Some ''1'', m_author = author, m_bot = False, m_member = True,
      m_channel = ''10'', m_channel_type = GuildText, m_content = text, m_quarantined = False,
      m_moderator = False, m_manager = False, m_attachments = []\<rparr>"

text \<open>
  What counts as enforcement against a member: deleting a message, writing to the
  author, the Muted role and its timer, a strike. \<open>enforcement\<close> keeps these of a
  state: the enforcing effects in order, the strike table and the muted members.
\<close>

fun is_enforcing :: "effect \<Rightarrow> bool" where
  "is_enforcing (Delete _) = True"
| "is_enforcing (SendDM _) = True"
| "is_enforcing (MutedRoleAdd _ _) = True"
| "is_enforcing (UnmuteTimer _ _ _) = True"
| "is_enforcing (StrikeCreate _ _ _) = True"
| "is_enforcing _ = False"

definition enforcement :: "bot \<Rightarrow> effect list \<times> strike_row list \<times> (string \<times> string) list" where
  "enforcement b = (filter is_enforcing (trace b), strikes b, mutedRole b)"

text \<open>A state in which user 42 of guild 1 holds \<open>n\<close> unpardoned strikes created at time 0.\<close>

definition with_strikes :: "nat \<Rightarrow> bot" where
  "with_strikes n =
     (initial_bot 0)\<lparr>strikes :=
        replicate n \<lparr>s_guildId = ''1'', s_userId = ''42'', s_category = FLAG_SPAM,
                     s_reason = ''spam_detection'', s_messageId = ''m0'', s_actorId = ''bot'',
                     createdAt = 0, pardoned = False\<rparr>\<rparr>"

text \<open>The answers of \<open>n\<close> calls of \<^verbatim>\<open>allowOpenAICall\<close> in a row at the same instant.\<close>

fun allow_repeatedly :: "config \<Rightarrow> env \<Rightarrow> nat \<Rightarrow> bot \<Rightarrow> bool list" where
  "allow_repeatedly cfg ev 0 b = []"
| "allow_repeatedly cfg ev (Suc n) b =
     (case allowOpenAICall cfg ev b of (a, b') \<Rightarrow> a # allow_repeatedly cfg ev n b')"

text \<open>Messages handled one after the other, each run finishing before the next starts.\<close>

definition handle_all :: "config \<Rightarrow> env \<Rightarrow> message list \<Rightarrow> bot \<Rightarrow> bot" where
  "handle_all cfg ev ms b = foldl (\<lambda>s m. snd (messageCreate cfg ev m s)) b ms"

text \<open>A second request for user 42 of guild 1 has committed its ticket, with channel 800.\<close>

definition racing :: env where
  "racing =
     (answering 0 ''OK'')
       \<lparr>concurrent_tickets :=
          [\<lparr>t_channelId = ''800'', t_guildId = ''1'', t_ownerId = ''42'', t_subject = ''help'',
            closedAt = None\<rparr>],
        concurrent_channels := [''800''], ticket_insert := UniqueViolation\<rparr>"

text \<open>
  The database reports a uniqueness violation although no other request has committed
  anything.
\<close>

definition alone :: "string \<Rightarrow> env" where
  "alone txt = (answering 0 txt)\<lparr>ticket_insert := UniqueViolation\<rparr>"

section \<open>Properties\<close>

subsection \<open>The gateway resolves, and fails open\<close>

text \<open>
  Claim C3. \<^verbatim>\<open>performOpenAICall\<close> always resolves and never rejects. A fresh cache
  entry for the text is returned as it is. Otherwise, when the service is unconfigured,
  when the rate limiter refuses the call, or when both call strategies throw, the
  promise resolves to the category \<open>OK\<close> with \<open>flagged = False\<close>.
\<close>

theorem performOpenAICall_fail_open:
  "(\<exists>r b'. performOpenAICall cfg ev content b = (Returns r, b'))
   \<and> (\<forall>e. fst (cacheGet cfg ev content b) = Some e \<longrightarrow>
          fst (performOpenAICall cfg ev content b)
            = Returns \<lparr>flagged = flagged e, category = category e\<rparr>)
   \<and> (fst (cacheGet cfg ev content b) = None
        \<and> (\<not> openai cfg
           \<or> \<not> fst (allowOpenAICall cfg ev (snd (cacheGet cfg ev content b)))
           \<or> (chat_completions ev (Moderation content) = Throws
              \<and> responses ev (Moderation content) = Throws))
       \<longrightarrow> fst (performOpenAICall cfg ev content b)
            = Returns \<lparr>flagged = False, category = OK\<rparr>)"
proof (intro conjI allI impI)
  show "\<exists>r b'. performOpenAICall cfg ev content b = (Returns r, b')"
    by (simp add: performOpenAICall_def Let_def
        split: prod.splits option.splits outcome.splits bool.splits)
next
  fix e assume "fst (cacheGet cfg ev content b) = Some e"
  then obtain b1 where "cacheGet cfg ev content b = (Some e, b1)"
    by (cases "cacheGet cfg ev content b") simp
  then show "fst (performOpenAICall cfg ev content b)
      = Returns \<lparr>flagged = flagged e, category = category e\<rparr>"
    by (simp add: performOpenAICall_def)
next
  assume h: "fst (cacheGet cfg ev content b) = None
        \<and> (\<not> openai cfg
           \<or> \<not> fst (allowOpenAICall cfg ev (snd (cacheGet cfg ev content b)))
           \<or> (chat_completions ev (Moderation content) = Throws
              \<and> responses ev (Moderation content) = Throws))"
  obtain b1 where c: "cacheGet cfg ev content b = (None, b1)"
    using h by (cases "cacheGet cfg ev content b") simp
  obtain a b2 where al: "allowOpenAICall cfg ev b1 = (a, b2)"
    by (cases "allowOpenAICall cfg ev b1")
  have both: "chat_completions ev (Moderation content) = Throws
      \<and> responses ev (Moderation content) = Throws
      \<Longrightarrow> fst (callBothStrategies ev (Moderation content) b2) = Throws"
    by (simp add: callBothStrategies_def Let_def)
  from h c al both
  show "fst (performOpenAICall cfg ev content b) = Returns \<lparr>flagged = False, category = OK\<rparr>"
    by (cases a) (auto simp: performOpenAICall_def ok_result_def split: prod.splits outcome.splits)
qed

theorem performOpenAICall_fail_open_witness:
  "fst (cacheGet (defaults False) (answering 0 ''FLAG_HATE'') ''some text'' (initial_bot 0)) = None
   \<and> \<not> openai (defaults False)
   \<and> fst (performOpenAICall (defaults False) (answering 0 ''FLAG_HATE'') ''some text'' (initial_bot 0))
       = Returns \<lparr>flagged = False, category = OK\<rparr>"
proof -
  have h1: "fst (cacheGet (defaults False) (answering 0 ''FLAG_HATE'') ''some text'' (initial_bot 0)) = None"
    by (simp add: cacheGet_def initial_bot_def)
  have h2: "\<not> openai (defaults False)"
    by (simp add: defaults_def)
  show ?thesis
    using h1 h2
      performOpenAICall_fail_open [of "defaults False" "answering 0 ''FLAG_HATE''" "''some text''" "initial_bot 0"]
    by blast
qed

subsection \<open>From the raw answer to a category\<close>

text \<open>
  Claim C7, as amended. The raw answer, in upper case, is mapped by substring in the
  order \<open>FLAG_HATE\<close>, \<open>FLAG_NSFW\<close>, \<open>FLAG_BET\<close>, \<open>FLAG_SPAM\<close>, then \<open>OK\<close> (the
  answer is exactly \<open>OK\<close> or contains \<open>OK\<close> after a space). An answer that matches none
  of these is mapped to \<open>FLAG_SPAM\<close> when it contains \<open>FLAG\<close>, and to \<open>OK\<close> when it
  does not.
\<close>

theorem classifyOutput_priority:
  "(js_includes (toUpperCase raw) ''FLAG_HATE'' \<longrightarrow> classifyOutput raw = FLAG_HATE)
   \<and> (\<not> js_includes (toUpperCase raw) ''FLAG_HATE''
        \<and> js_includes (toUpperCase raw) ''FLAG_NSFW'' \<longrightarrow> classifyOutput raw = FLAG_NSFW)
   \<and> (\<not> js_includes (toUpperCase raw) ''FLAG_HATE''
        \<and> \<not> js_includes (toUpperCase raw) ''FLAG_NSFW''
        \<and> js_includes (toUpperCase raw) ''FLAG_BET'' \<longrightarrow> classifyOutput raw = FLAG_BET)
   \<and> (\<not> js_includes (toUpperCase raw) ''FLAG_HATE''
        \<and> \<not> js_includes (toUpperCase raw) ''FLAG_NSFW''
        \<and> \<not> js_includes (toUpperCase raw) ''FLAG_BET''
        \<and> js_includes (toUpperCase raw) ''FLAG_SPAM'' \<longrightarrow> classifyOutput raw = FLAG_SPAM)
   \<and> (\<not> js_includes (toUpperCase raw) ''FLAG_HATE''
        \<and> \<not> js_includes (toUpperCase raw) ''FLAG_NSFW''
        \<and> \<not> js_includes (toUpperCase raw) ''FLAG_BET''
        \<and> \<not> js_includes (toUpperCase raw) ''FLAG_SPAM''
        \<and> (toUpperCase raw = ''OK'' \<or> js_includes (toUpperCase raw) '' OK'')
       \<longrightarrow> classifyOutput raw = OK)
   \<and> (\<not> js_includes (toUpperCase raw) ''FLAG_HATE''
        \<and> \<not> js_includes (toUpperCase raw) ''FLAG_NSFW''
        \<and> \<not> js_includes (toUpperCase raw) ''FLAG_BET''
        \<and> \<not> js_includes (toUpperCase raw) ''FLAG_SPAM''
        \<and> toUpperCase raw \<noteq> ''OK'' \<and> \<not> js_includes (toUpperCase raw) '' OK''
        \<and> js_includes (toUpperCase raw) ''FLAG'' \<longrightarrow> classifyOutput raw = FLAG_SPAM)
   \<and> (toUpperCase raw \<noteq> ''OK'' \<and> \<not> js_includes (toUpperCase raw) '' OK''
        \<and> \<not> js_includes (toUpperCase raw) ''FLAG'' \<longrightarrow> classifyOutput raw = OK)"
proof -
  have sub: "\<And>t. js_includes (toUpperCase raw) t \<Longrightarrow> js_includes t ''FLAG''
      \<Longrightarrow> js_includes (toUpperCase raw) ''FLAG''"
    unfolding js_includes_def by (rule sublist_order.order_trans)
  have f: "js_includes ''FLAG_HATE'' ''FLAG''" "js_includes ''FLAG_NSFW'' ''FLAG''"
    "js_includes ''FLAG_BET'' ''FLAG''" "js_includes ''FLAG_SPAM'' ''FLAG''"
    by code_simp+
  show ?thesis
    using sub [OF _ f(1)] sub [OF _ f(2)] sub [OF _ f(3)] sub [OF _ f(4)]
    by (auto simp: classifyOutput_def Let_def)
qed

theorem classifyOutput_priority_witness:
  "classifyOutput ''flag_hate or flag_spam'' = FLAG_HATE
   \<and> classifyOutput ''flag_nsfw, flag_bet'' = FLAG_NSFW
   \<and> classifyOutput ''Flag_Bet (also FLAG_SPAM)'' = FLAG_BET
   \<and> classifyOutput ''FLAG_SPAM'' = FLAG_SPAM
   \<and> classifyOutput ''FLAG? ok'' = OK
   \<and> classifyOutput ''I would FLAG this'' = FLAG_SPAM
   \<and> classifyOutput ''hate speech'' = OK"
proof -
  have a: "js_includes (toUpperCase ''flag_hate or flag_spam'') ''FLAG_HATE''" by code_simp
  have b: "\<not> js_includes (toUpperCase ''flag_nsfw, flag_bet'') ''FLAG_HATE''
      \<and> js_includes (toUpperCase ''flag_nsfw, flag_bet'') ''FLAG_NSFW''" by code_simp
  have c: "\<not> js_includes (toUpperCase ''Flag_Bet (also FLAG_SPAM)'') ''FLAG_HATE''
      \<and> \<not> js_includes (toUpperCase ''Flag_Bet (also FLAG_SPAM)'') ''FLAG_NSFW''
      \<and> js_includes (toUpperCase ''Flag_Bet (also FLAG_SPAM)'') ''FLAG_BET''" by code_simp
  have d: "\<not> js_includes (toUpperCase ''FLAG_SPAM'') ''FLAG_HATE''
      \<and> \<not> js_includes (toUpperCase ''FLAG_SPAM'') ''FLAG_NSFW''
      \<and> \<not> js_includes (toUpperCase ''FLAG_SPAM'') ''FLAG_BET''
      \<and> js_includes (toUpperCase ''FLAG_SPAM'') ''FLAG_SPAM''" by code_simp
  have e: "\<not> js_includes (toUpperCase ''FLAG? ok'') ''FLAG_HATE''
      \<and> \<not> js_includes (toUpperCase ''FLAG? ok'') ''FLAG_NSFW''
      \<and> \<not> js_includes (toUpperCase ''FLAG? ok'') ''FLAG_BET''
      \<and> \<not> js_includes (toUpperCase ''FLAG? ok'') ''FLAG_SPAM''
      \<and> (toUpperCase ''FLAG? ok'' = ''OK'' \<or> js_includes (toUpperCase ''FLAG? ok'') '' OK'')"
    by code_simp
  have f: "\<not> js_includes (toUpperCase ''I would FLAG this'') ''FLAG_HATE''
      \<and> \<not> js_includes (toUpperCase ''I would FLAG this'') ''FLAG_NSFW''
      \<and> \<not> js_includes (toUpperCase ''I would FLAG this'') ''FLAG_BET''
      \<and> \<not> js_includes (toUpperCase ''I would FLAG this'') ''FLAG_SPAM''
      \<and> toUpperCase ''I would FLAG this'' \<noteq> ''OK''
      \<and> \<not> js_includes (toUpperCase ''I would FLAG this'') '' OK''
      \<and> js_includes (toUpperCase ''I would FLAG this'') ''FLAG''" by code_simp
  have g: "toUpperCase ''hate speech'' \<noteq> ''OK''
      \<and> \<not> js_includes (toUpperCase ''hate speech'') '' OK''
      \<and> \<not> js_includes (toUpperCase ''hate speech'') ''FLAG''" by code_simp
  have "classifyOutput ''flag_hate or flag_spam'' = FLAG_HATE"
    using a classifyOutput_priority [of "''flag_hate or flag_spam''"] by (elim conjE) simp
  moreover have "classifyOutput ''flag_nsfw, flag_bet'' = FLAG_NSFW"
    using b classifyOutput_priority [of "''flag_nsfw, flag_bet''"] by (elim conjE) simp
  moreover have "classifyOutput ''Flag_Bet (also FLAG_SPAM)'' = FLAG_BET"
    using c classifyOutput_priority [of "''Flag_Bet (also FLAG_SPAM)''"] by (elim conjE) simp
  moreover have "classifyOutput ''FLAG_SPAM'' = FLAG_SPAM"
    using d classifyOutput_priority [of "''FLAG_SPAM''"] by (elim conjE) simp
  moreover have "classifyOutput ''FLAG? ok'' = OK"
    using e classifyOutput_priority [of "''FLAG? ok''"] by (elim conjE) simp
  moreover have "classifyOutput ''I would FLAG this'' = FLAG_SPAM"
    using f classifyOutput_priority [of "''I would FLAG this''"] by (elim conjE) simp
  moreover have "classifyOutput ''hate speech'' = OK"
    using g classifyOutput_priority [of "''hate speech''"] by (elim conjE) simp
  ultimately show ?thesis by simp
qed

text \<open>
  The claim as first written sends every unrecognised answer that is not \<open>OK\<close> to
  \<open>FLAG_SPAM\<close>. An answer without the word \<open>FLAG\<close> is not: it is taken as \<open>OK\<close>.
\<close>

theorem classifyOutput_unrecognised_counterexample:
  "classifyOutput ''hate speech'' = OK \<and> classifyOutput ''hate speech'' \<noteq> FLAG_SPAM"
  by code_simp

subsection \<open>What leaves enforcement untouched\<close>

text \<open>
  Logging, the rate limiter, the cache and both gateways to the service delete nothing,
  strike nobody and mute nobody.
\<close>

lemma enforcement_emit [simp]:
  "\<not> is_enforcing e \<Longrightarrow> enforcement (emit e b) = enforcement b"
  by (simp add: enforcement_def emit_def)

lemma enforcement_logDetailed [simp]: "enforcement (logDetailed ev b) = enforcement b"
  by (simp add: logDetailed_def)

lemma enforcement_logAction [simp]: "enforcement (logAction ev a b) = enforcement b"
  by (simp add: logAction_def)

lemma enforcement_allowOpenAICall [simp]:
  "enforcement (snd (allowOpenAICall cfg ev b)) = enforcement b"
  by (simp add: allowOpenAICall_def enforcement_def Let_def)

lemma enforcement_cacheGet [simp]:
  "enforcement (snd (cacheGet cfg ev t b)) = enforcement b"
  by (simp add: cacheGet_def enforcement_def split: option.splits)

lemma enforcement_cacheSet [simp]:
  "enforcement (cacheSet ev t f c b) = enforcement b"
  by (simp add: cacheSet_def enforcement_def)

lemma enforcement_callBothStrategies [simp]:
  "enforcement (snd (callBothStrategies ev rq b)) = enforcement b"
  by (simp add: callBothStrategies_def Let_def split: outcome.splits)

lemma enforcement_performOpenAICall [simp]:
  "enforcement (snd (performOpenAICall cfg ev t b)) = enforcement b"
proof -
  obtain e b1 where c: "cacheGet cfg ev t b = (e, b1)" by (cases "cacheGet cfg ev t b")
  obtain a b2 where al: "allowOpenAICall cfg ev b1 = (a, b2)" by (cases "allowOpenAICall cfg ev b1")
  obtain r b3 where cb: "callBothStrategies ev (Moderation t) b2 = (r, b3)"
    by (cases "callBothStrategies ev (Moderation t) b2")
  have 1: "enforcement b1 = enforcement b" using enforcement_cacheGet [of cfg ev t b] c by simp
  have 2: "enforcement b2 = enforcement b1" using enforcement_allowOpenAICall [of cfg ev b1] al by simp
  have 3: "enforcement b3 = enforcement b2"
    using enforcement_callBothStrategies [of ev "Moderation t" b2] cb by simp
  show ?thesis
    using c al cb 1 2 3
    by (cases e; cases a; cases r) (simp_all add: performOpenAICall_def Let_def)
qed




subsection \<open>No strike without confirmation\<close>



subsection \<open>Reaching the threshold\<close>







text \<open>
  A timed mute and the threshold. The member is muted for ten minutes at time 0 and
  then, still at time 0, reaches the threshold: \<^verbatim>\<open>muteMemberForever\<close> finds the role
  and only logs. When the timer fires ten minutes later the role is taken away.
\<close>

lemma timed_mute_then_threshold:
  "(''1'', ''42'') \<in> set (mutedRole (decideAndApplyStrike (defaults True) (answering 0 ''STRIKE'') ''1''
        (sample_message ''m1'' ''42'' ''nba picks today'') FLAG_BET
        (snd (muteMember (answering 0 ''STRIKE'') (Some (''1'', ''42'')) 10 (with_strikes 4)))))
   \<and> last (trace (decideAndApplyStrike (defaults True) (answering 0 ''STRIKE'') ''1''
        (sample_message ''m1'' ''42'' ''nba picks today'') FLAG_BET
        (snd (muteMember (answering 0 ''STRIKE'') (Some (''1'', ''42'')) 10 (with_strikes 4)))))
       = LogDetailed ''member.already_muted_forever'' []
   \<and> mutedRole (fireTimers (answering 600000 ''STRIKE'')
        (decideAndApplyStrike (defaults True) (answering 0 ''STRIKE'') ''1''
           (sample_message ''m1'' ''42'' ''nba picks today'') FLAG_BET
           (snd (muteMember (answering 0 ''STRIKE'') (Some (''1'', ''42'')) 10 (with_strikes 4)))))
       = []"
  by code_simp

subsection \<open>A verdict of no strike\<close>

text \<open>
  Claim C1 says that an answer whose first line is \<open>NO_STRIKE\<close> never leads to a
  strike. The parser looks for \<open>STRIKE\<close> first, and \<open>NO_STRIKE\<close> contains it: on the
  answer \<open>NO_STRIKE\<close> followed by a reason, \<^verbatim>\<open>verifyStrikeDecision\<close> returns
  \<open>strike = True\<close> and \<^verbatim>\<open>decideAndApplyStrike\<close> stores a strike.
\<close>

theorem no_strike_verdict_is_taken_as_strike:
  "js_includes (firstLine (''NO_STRIKE'' @ [CHR 0x0A] @ ''casual slang, no violation'')) ''NO_STRIKE''
   \<and> strike (fst (verifyStrikeDecision (defaults True)
         (answering 0 (''NO_STRIKE'' @ [CHR 0x0A] @ ''casual slang, no violation''))
         ''bet you cannot beat me'' FLAG_BET (initial_bot 0)))
   \<and> map s_category (strikes (decideAndApplyStrike (defaults True)
         (answering 0 (''NO_STRIKE'' @ [CHR 0x0A] @ ''casual slang, no violation'')) ''1''
         (sample_message ''m1'' ''42'' ''bet you cannot beat me'') FLAG_BET (initial_bot 0)))
       = [FLAG_BET]"
  by code_simp

subsection \<open>The affirmation guard\<close>

text \<open>
  Claim C5. A text whose trimmed form is at most twenty characters long and matches the
  affirmation pattern is never checked, whatever the configuration, the channel and the
  random sample; \<open>bet\<close> alone is such a text.
\<close>

theorem affirmation_guard_skips:
  "(length (trim text) \<le> 20 \<and> regex_test True AFFIRMATION_REGEX (trim text)
      \<longrightarrow> \<not> shouldCheckByPolicy cfg ev text channelType)
   \<and> \<not> shouldCheckByPolicy cfg ev ''bet'' channelType"
proof -
  have g: "\<And>t. length (trim t) \<le> 20 \<and> regex_test True AFFIRMATION_REGEX (trim t)
      \<Longrightarrow> \<not> shouldCheckByPolicy cfg ev t channelType"
    by (simp add: shouldCheckByPolicy_def Let_def)
  have "length (trim ''bet'') \<le> 20 \<and> regex_test True AFFIRMATION_REGEX (trim ''bet'')"
    by code_simp
  then show ?thesis using g by blast
qed

theorem affirmation_guard_skips_witness:
  "length (trim ''  Alright BET '') \<le> 20
   \<and> regex_test True AFFIRMATION_REGEX (trim ''  Alright BET '')
   \<and> \<not> shouldCheckByPolicy (defaults True) (answering 0 ''OK'') ''  Alright BET '' GuildText"
proof -
  have h: "length (trim ''  Alright BET '') \<le> 20
      \<and> regex_test True AFFIRMATION_REGEX (trim ''  Alright BET '')"
    by code_simp
  show ?thesis
    using h affirmation_guard_skips [of "''  Alright BET ''" "defaults True" "answering 0 ''OK''" GuildText]
    by blast
qed

subsection \<open>The admin user\<close>

text \<open>
  Claim C10. For a message of the admin user the handler finishes at once. In a guild,
  and when the author is not a bot, it calls \<^verbatim>\<open>logDetailed\<close> once, with the event
  \<open>message.bypass_admin\<close>; otherwise it does nothing at all. Nothing else changes: no
  flood bookkeeping, no call budget, no cache entry, no strike, no mute.
\<close>

theorem admin_bypass:
  "m_author m = ADMIN_USER_ID cfg \<Longrightarrow>
     messageCreate cfg ev m b
       = (Done, if m_guild m \<noteq> None \<and> \<not> m_bot m
                then b\<lparr>trace := trace b @ [LogDetailed ''message.bypass_admin'' []]\<rparr>
                else b)"
  by (simp add: messageCreate_def logDetailed_def emit_def split: option.splits)

theorem admin_bypass_witness:
  "m_author (sample_message ''m1'' ''637758147330572349'' ''nba picks, $20 each'')
     = ADMIN_USER_ID (defaults True)
   \<and> messageCreate (defaults True) (answering 0 ''FLAG_BET'')
        (sample_message ''m1'' ''637758147330572349'' ''nba picks, $20 each'') (initial_bot 0)
      = (Done, (initial_bot 0)\<lparr>trace := [LogDetailed ''message.bypass_admin'' []]\<rparr>)"
proof -
  let ?m = "sample_message ''m1'' ''637758147330572349'' ''nba picks, $20 each''"
  have h: "m_author ?m = ADMIN_USER_ID (defaults True)"
    by (simp add: sample_message_def defaults_def)
  have g: "m_guild ?m \<noteq> None \<and> \<not> m_bot ?m" by (simp add: sample_message_def)
  show ?thesis
    using h g admin_bypass [OF h, of "answering 0 ''FLAG_BET''" "initial_bot 0"]
    by (simp add: initial_bot_def)
qed

subsection \<open>The call budget\<close>

text \<open>
  The limiter by itself grants what is left of the budget and refuses the next call:
  within a window, with \<open>k\<close> units left, \<open>k + 1\<close> calls are answered \<open>k\<close> times
  yes and then no.
\<close>

lemma allowOpenAICall_grants_budget:
  "now ev - windowStart b < 60000 \<Longrightarrow> callsThisWindow b \<le> MAX_OPENAI_PER_MIN cfg
   \<Longrightarrow> k = nat (MAX_OPENAI_PER_MIN cfg - callsThisWindow b)
   \<Longrightarrow> allow_repeatedly cfg ev (Suc k) b = replicate k True @ [False]"
proof (induction k arbitrary: b)
  case 0
  then show ?case by (simp add: allowOpenAICall_def Let_def)
next
  case (Suc k)
  let ?b' = "b\<lparr>callsThisWindow := callsThisWindow b + 1\<rparr>"
  have lt: "callsThisWindow b < MAX_OPENAI_PER_MIN cfg" using Suc.prems by linarith
  have step: "allowOpenAICall cfg ev b = (True, ?b')"
    using Suc.prems(1) lt by (simp add: allowOpenAICall_def Let_def)
  have "allow_repeatedly cfg ev (Suc k) ?b' = replicate k True @ [False]"
    using Suc.prems lt by (intro Suc.IH) simp_all
  then show ?case using step by simp
qed

text \<open>
  Claim C6 says that of \<open>N + 1\<close> classification calls in one window \<open>N\<close> are processed
  and one is skipped. The handler takes a unit of the budget with
  \<^verbatim>\<open>allowOpenAICall\<close> and \<^verbatim>\<open>performOpenAICall\<close> takes a second one for the same
  message. With a budget of two and three different messages at the same instant, the
  service is asked once: the second and the third message are refused.
\<close>

theorem budget_is_consumed_twice:
  "trace (handle_all ((defaults True)\<lparr>MAX_OPENAI_PER_MIN := 2\<rparr>) (answering 0 ''OK'')
        [sample_message ''m1'' ''41'' ''nba picks one'',
         sample_message ''m2'' ''42'' ''nba picks two'',
         sample_message ''m3'' ''43'' ''nba picks three''] (initial_bot 0))
     = [SetupGuildRun ''1'', LogDetailed ''message.received'' [],
        LogDetailed ''precheck'' [], LogDetailed ''openai.call.start'' [],
        ChatCompletions (Moderation ''nba picks one''),
        LogDetailed ''openai.call.end'' [], LogDetailed ''message.allowed'' [],
        LogDetailed ''message.received'' [], LogDetailed ''precheck'' [],
        LogDetailed ''rate_limit'' [],
        LogDetailed ''message.received'' [], LogDetailed ''precheck'' [],
        LogDetailed ''rate_limit'' []]"
  by code_simp

subsection \<open>The hate allowlist\<close>

lemma performOpenAICall_caches_result:
  "performOpenAICall cfg ev t b = (Returns r, b')
   \<Longrightarrow> map_option (\<lambda>e. (flagged e, category e)) (messageCache b' t) = Some (flagged r, category r)"
proof -
  assume p: "performOpenAICall cfg ev t b = (Returns r, b')"
  obtain e b1 where c: "cacheGet cfg ev t b = (e, b1)" by (cases "cacheGet cfg ev t b")
  obtain a b2 where al: "allowOpenAICall cfg ev b1 = (a, b2)" by (cases "allowOpenAICall cfg ev b1")
  obtain x b3 where cb: "callBothStrategies ev (Moderation t) b2 = (x, b3)"
    by (cases "callBothStrategies ev (Moderation t) b2")
  have hit: "\<And>y. e = Some y \<Longrightarrow> messageCache b1 t = Some y"
    using c by (auto simp: cacheGet_def split: option.splits if_splits)
  show ?thesis
    using p c al cb hit
    by (cases e; cases a; cases x)
       (auto simp: performOpenAICall_def Let_def cacheSet_def ok_result_def split: if_splits)
qed

text \<open>
  Claim C4, as amended. The gateway caches the category as the classifier gave it: the
  cached entry agrees with the result it returns, allowlisted text or not. The
  downgrade is made afterwards, by each consumer of a hate result. For a text that
  contains an allowlisted word and no severe slur, a hate result leads to no deletion,
  no strike and no mute on the fresh-call path, on the cache-hit path, and on the
  quarantine path for a cached as for a fresh result.
\<close>

theorem hate_allowlist_at_every_consumer:
  assumes allow: "hateAllowlistOnly (m_content m)"
  shows "enforcement (applyClassification cfg ev g m \<lparr>flagged = True, category = FLAG_HATE\<rparr> b)
           = enforcement b
     \<and> (flagged cached \<and> category cached = FLAG_HATE
          \<longrightarrow> enforcement (cacheHit cfg ev g m cached b) = enforcement b)
     \<and> ((case fst (cacheGet cfg ev (m_content m) (logDetailed ''quarantine.monitor'' b)) of
            Some e \<Rightarrow> flagged e \<and> category e = FLAG_HATE
          | None \<Rightarrow>
              fst (performOpenAICall cfg ev (m_content m)
                     (snd (allowOpenAICall cfg ev
                        (snd (cacheGet cfg ev (m_content m) (logDetailed ''quarantine.monitor'' b))))))
                = Returns \<lparr>flagged = True, category = FLAG_HATE\<rparr>)
          \<longrightarrow> enforcement (quarantineMonitor cfg ev g m b) = enforcement b)
     \<and> (fst (performOpenAICall cfg ev (m_content m) b) = Returns r
          \<longrightarrow> map_option (\<lambda>e. (flagged e, category e))
                (messageCache (snd (performOpenAICall cfg ev (m_content m) b)) (m_content m))
              = Some (flagged r, category r))"
proof (intro conjI impI)
  show "enforcement (applyClassification cfg ev g m \<lparr>flagged = True, category = FLAG_HATE\<rparr> b)
      = enforcement b"
    using allow by (simp add: applyClassification_def Let_def)
next
  assume "flagged cached \<and> category cached = FLAG_HATE"
  then show "enforcement (cacheHit cfg ev g m cached b) = enforcement b"
    using allow by (simp add: cacheHit_def Let_def)
next
  let ?b0 = "logDetailed ''quarantine.monitor'' b"
  assume h: "case fst (cacheGet cfg ev (m_content m) ?b0) of
            Some e \<Rightarrow> flagged e \<and> category e = FLAG_HATE
          | None \<Rightarrow>
              fst (performOpenAICall cfg ev (m_content m)
                     (snd (allowOpenAICall cfg ev (snd (cacheGet cfg ev (m_content m) ?b0)))))
                = Returns \<lparr>flagged = True, category = FLAG_HATE\<rparr>"
  obtain e b1 where c: "cacheGet cfg ev (m_content m) ?b0 = (e, b1)"
    by (cases "cacheGet cfg ev (m_content m) ?b0")
  obtain a b2 where al: "allowOpenAICall cfg ev b1 = (a, b2)" by (cases "allowOpenAICall cfg ev b1")
  obtain x b3 where p: "performOpenAICall cfg ev (m_content m) b2 = (x, b3)"
    by (cases "performOpenAICall cfg ev (m_content m) b2")
  have 1: "enforcement b1 = enforcement b"
    using enforcement_cacheGet [of cfg ev "m_content m" ?b0] c by simp
  have 2: "enforcement b2 = enforcement b1"
    using enforcement_allowOpenAICall [of cfg ev b1] al by simp
  have 3: "enforcement b3 = enforcement b2"
    using enforcement_performOpenAICall [of cfg ev "m_content m" b2] p by simp
  have expired: "enforcement (emit (QuarantinedRoleRemove g (m_author m)) b) = enforcement b"
    by simp
  have cleared: "\<And>s q. enforcement (s\<lparr>quarantineMap := q\<rparr>) = enforcement s"
    by (simp add: enforcement_def)
  show "enforcement (quarantineMonitor cfg ev g m b) = enforcement b"
    using h c al p 1 2 3 allow expired cleared
    by (cases e; cases a) (auto simp: quarantineMonitor_def Let_def)
next
  assume "fst (performOpenAICall cfg ev (m_content m) b) = Returns r"
  then have "performOpenAICall cfg ev (m_content m) b
      = (Returns r, snd (performOpenAICall cfg ev (m_content m) b))"
    by (cases "performOpenAICall cfg ev (m_content m) b") simp
  then show "map_option (\<lambda>e. (flagged e, category e))
      (messageCache (snd (performOpenAICall cfg ev (m_content m) b)) (m_content m))
      = Some (flagged r, category r)"
    by (rule performOpenAICall_caches_result)
qed

theorem hate_allowlist_at_every_consumer_witness:
  "hateAllowlistOnly (m_content (sample_message ''m1'' ''42'' ''sweaty lobby''))
   \<and> enforcement (applyClassification (defaults True) (answering 0 ''FLAG_HATE'') ''1''
         (sample_message ''m1'' ''42'' ''sweaty lobby'')
         \<lparr>flagged = True, category = FLAG_HATE\<rparr> (initial_bot 0))
       = enforcement (initial_bot 0)
   \<and> enforcement (quarantineMonitor (defaults True) (answering 0 ''FLAG_HATE'') ''1''
         (sample_message ''m1'' ''42'' ''sweaty lobby'') (initial_bot 0))
       = enforcement (initial_bot 0)"
proof -
  let ?m = "sample_message ''m1'' ''42'' ''sweaty lobby''"
  let ?ev = "answering 0 ''FLAG_HATE''"
  have h: "hateAllowlistOnly (m_content ?m)" by code_simp
  have q: "case fst (cacheGet (defaults True) ?ev (m_content ?m)
                  (logDetailed ''quarantine.monitor'' (initial_bot 0))) of
            Some e \<Rightarrow> flagged e \<and> category e = FLAG_HATE
          | None \<Rightarrow>
              fst (performOpenAICall (defaults True) ?ev (m_content ?m)
                     (snd (allowOpenAICall (defaults True) ?ev
                        (snd (cacheGet (defaults True) ?ev (m_content ?m)
                           (logDetailed ''quarantine.monitor'' (initial_bot 0)))))))
                = Returns \<lparr>flagged = True, category = FLAG_HATE\<rparr>"
    by code_simp
  show ?thesis
    using h q
      hate_allowlist_at_every_consumer [OF h, of "defaults True" ?ev "''1''" "initial_bot 0"]
    by blast
qed

text \<open>
  The claim as first written has the result downgraded before it is cached. After the
  handler has dealt with an allowlisted text that the classifier calls hate, the cache
  holds the hate flag.
\<close>

theorem hate_flag_cached_counterexample:
  "hateAllowlistOnly ''sweaty lobby''
   \<and> map_option (\<lambda>e. (flagged e, category e))
        (messageCache (snd (messageCreate (defaults True) (answering 0 ''FLAG_HATE'')
            (sample_message ''m1'' ''42'' ''sweaty lobby'') (initial_bot 0))) ''sweaty lobby'')
      = Some (True, FLAG_HATE)"
  by code_simp

subsection \<open>A uniqueness violation at ticket creation\<close>

lemma find_append_none:
  "find P xs = None \<Longrightarrow> find P (xs @ ys) = find P ys"
  by (induction xs) (auto split: if_splits)

text \<open>
  Claim C9, as amended. The request finds no open ticket of the pair at its pre-check
  and creates a channel, and the insert reports a uniqueness violation. When by then
  another request has committed an open ticket of the pair, whose channel exists and is
  not the created one, the created channel is deleted (the deletion is asked for, and
  the channel is gone unless the platform refuses), the channel of the other ticket is
  returned, no row is written for the created channel, and the lock of the pair is
  released. When the lookup finds no open ticket of the pair, nothing is deleted: the
  insert is tried a second time, a failure of it is only logged, the created channel is
  announced and returned, and the lock is released.
\<close>

theorem unique_violation_at_insert:
  assumes ok: "\<not> fails ev DbFindOpenTicket" "\<not> fails ev EnsureCategory" "\<not> fails ev ChannelsCreate"
    and none: "getOpenTicketByOwner g u b = None"
    and uv: "ticket_insert ev = UniqueViolation"
  shows "(find (\<lambda>t. t_guildId t = g \<and> t_ownerId t = u \<and> closedAt t = None)
               (concurrent_tickets ev) = Some existing
          \<and> t_channelId existing \<noteq> [] \<and> t_channelId existing \<noteq> new_channel ev
          \<and> t_channelId existing \<in> set (channels b) \<union> set (concurrent_channels ev)
        \<longrightarrow> fst (createTicketChannel ev g u subject b) = Returns (t_channelId existing)
            \<and> tickets (snd (createTicketChannel ev g u subject b))
                = tickets b @ concurrent_tickets ev
            \<and> ChannelDeleteRun (new_channel ev)
                \<in> set (trace (snd (createTicketChannel ev g u subject b)))
            \<and> (\<not> fails ev ChannelDelete
                 \<longrightarrow> new_channel ev \<notin> set (channels (snd (createTicketChannel ev g u subject b))))
            \<and> (g, u) \<notin> set (ticketCreationLocks (snd (createTicketChannel ev g u subject b))))
     \<and> (find (\<lambda>t. t_guildId t = g \<and> t_ownerId t = u \<and> closedAt t = None)
               (concurrent_tickets ev) = None
          \<and> \<not> fails ev ChannelSend \<and> \<not> fails ev ModLogSend
        \<longrightarrow> fst (createTicketChannel ev g u subject b) = Returns (new_channel ev)
            \<and> channels (snd (createTicketChannel ev g u subject b))
                = new_channel ev # channels b @ concurrent_channels ev
            \<and> trace (snd (createTicketChannel ev g u subject b))
                = trace b
                  @ [ChannelCreate (new_channel ev), TicketInsert (new_channel ev),
                     LogDetailed ''ticket.db_unique_violation'' [], TicketInsert (new_channel ev)]
                  @ (if ticket_insert_retry ev = Inserted then []
                     else [LogDetailed ''ticket.create_after_unique_failed'' []])
                  @ [TicketHeader (new_channel ev), LogDetailed ''ticket.opened'' []]
            \<and> tickets (snd (createTicketChannel ev g u subject b))
                = tickets b @ concurrent_tickets ev
                  @ (if ticket_insert_retry ev = Inserted
                     then [\<lparr>t_channelId = new_channel ev, t_guildId = g, t_ownerId = u,
                            t_subject = subject, closedAt = None\<rparr>]
                     else [])
            \<and> (g, u) \<notin> set (ticketCreationLocks (snd (createTicketChannel ev g u subject b))))"
proof (intro conjI impI)
  let ?c = "new_channel ev"
  let ?P = "\<lambda>t. t_guildId t = g \<and> t_ownerId t = u \<and> closedAt t = None"
  define b0 where "b0 = b\<lparr>ticketCreationLocks := List.insert (g, u) (ticketCreationLocks b)\<rparr>"
  define b2 where "b2 = emit (TicketInsert ?c)
      ((emit (ChannelCreate ?c) b0)
         \<lparr>channels := ?c # channels b0 @ concurrent_channels ev,
          tickets := tickets b0 @ concurrent_tickets ev\<rparr>)"
  define b3 where "b3 = logDetailed ''ticket.db_unique_violation'' b2"
  have none0: "find ?P (tickets b) = None"
    using none by (simp add: getOpenTicketByOwner_def)
  have t3: "tickets b3 = tickets b @ concurrent_tickets ev"
    by (simp add: b3_def b2_def b0_def logDetailed_def emit_def)
  have c3: "channels b3 = ?c # channels b @ concurrent_channels ev"
    by (simp add: b3_def b2_def b0_def logDetailed_def emit_def)
  have tr3: "trace b3 = trace b @ [ChannelCreate ?c, TicketInsert ?c,
      LogDetailed ''ticket.db_unique_violation'' []]"
    by (simp add: b3_def b2_def b0_def logDetailed_def emit_def)
  have look: "openTicketOrNull ev g u b3 = find ?P (concurrent_tickets ev)"
    using ok(1) none0 t3
    by (simp add: openTicketOrNull_def getOpenTicketByOwner_def find_append_none)
  have none1: "getOpenTicketByOwner g u b0 = None"
    using none by (simp add: getOpenTicketByOwner_def b0_def)
  have nowait: "openTicketOrNull ev g u b = None"
    using none by (simp add: openTicketOrNull_def)
  have chain: "\<And>r s. onUniqueViolation ev ?c g u subject b2 = (Returns r, s)
      \<Longrightarrow> createTicketChannel ev g u subject b
            = (Returns r, s\<lparr>ticketCreationLocks := removeAll (g, u) (ticketCreationLocks s)\<rparr>)"
  proof -
    fix r s assume uvr: "onUniqueViolation ev ?c g u subject b2 = (Returns r, s)"
    have fresh: "createFresh ev g u subject b0 = (Returns r, s)"
      using ok(2,3) uv uvr by (simp add: createFresh_def Let_def b2_def [symmetric])
    have body: "createTicketBody ev g u subject b0 = (Returns r, s)"
      using ok(1) none1 fresh by (simp add: createTicketBody_def)
    have locked: "lockedCreate ev g u subject b
        = (Returns r, s\<lparr>ticketCreationLocks := removeAll (g, u) (ticketCreationLocks s)\<rparr>)"
      using body by (simp add: lockedCreate_def b0_def [symmetric])
    show "createTicketChannel ev g u subject b
        = (Returns r, s\<lparr>ticketCreationLocks := removeAll (g, u) (ticketCreationLocks s)\<rparr>)"
      using locked nowait by (simp add: createTicketChannel_def)
  qed
  {
    assume h: "find ?P (concurrent_tickets ev) = Some existing
        \<and> t_channelId existing \<noteq> [] \<and> t_channelId existing \<noteq> ?c
        \<and> t_channelId existing \<in> set (channels b) \<union> set (concurrent_channels ev)"
    define d where "d = emit (ChannelDeleteRun ?c) b3"
    define b4 where "b4 = (if fails ev ChannelDelete
        then logDetailed ''ticket.channel_delete_failed'' d
        else d\<lparr>channels := removeAll ?c (channels d)\<rparr>)"
    have there: "channelExists (t_channelId existing) b4"
      using h c3 by (auto simp: channelExists_def b4_def d_def logDetailed_def emit_def)
    have uvr: "onUniqueViolation ev ?c g u subject b2 = (Returns (t_channelId existing), b4)"
      using look h there
      by (simp add: onUniqueViolation_def Let_def b3_def [symmetric] d_def [symmetric]
          b4_def [symmetric])
    define b5 where "b5 = b4\<lparr>ticketCreationLocks := removeAll (g, u) (ticketCreationLocks b4)\<rparr>"
    have res: "createTicketChannel ev g u subject b = (Returns (t_channelId existing), b5)"
      using chain [OF uvr] by (simp add: b5_def)
    have t5: "tickets b5 = tickets b @ concurrent_tickets ev"
      using t3 by (simp add: b5_def b4_def d_def logDetailed_def emit_def)
    have tr: "ChannelDeleteRun ?c \<in> set (trace b5)"
      by (simp add: b5_def b4_def d_def logDetailed_def emit_def)
    have gone: "\<not> fails ev ChannelDelete \<Longrightarrow> ?c \<notin> set (channels b5)"
      by (simp add: b5_def b4_def)
    have unlocked: "(g, u) \<notin> set (ticketCreationLocks b5)"
      by (simp add: b5_def)
    note res t5 tr gone unlocked
  }
  note first = this
  {
    assume h: "find ?P (concurrent_tickets ev) = None
        \<and> \<not> fails ev ChannelSend \<and> \<not> fails ev ModLogSend"
    define b4 where "b4 = emit (TicketInsert ?c) b3"
    define b5 where "b5 = (if ticket_insert_retry ev = Inserted
        then insertTicketRow ?c g u subject b4
        else logDetailed ''ticket.create_after_unique_failed'' b4)"
    define b6 where "b6 = logDetailed ''ticket.opened'' (emit (TicketHeader ?c) b5)"
    have c5: "channels b5 = ?c # channels b @ concurrent_channels ev"
      using c3 by (simp add: b5_def b4_def insertTicketRow_def logDetailed_def emit_def)
    have ann: "announceTicket ev ?c b5 = (Returns ?c, b6)"
      using h c5 by (simp add: announceTicket_def channelExists_def Let_def b6_def)
    have uvr: "onUniqueViolation ev ?c g u subject b2 = (Returns ?c, b6)"
      using look h ann
      by (simp add: onUniqueViolation_def retryInsert_def Let_def b3_def [symmetric]
          b4_def [symmetric] b5_def [symmetric])
    define b7 where "b7 = b6\<lparr>ticketCreationLocks := removeAll (g, u) (ticketCreationLocks b6)\<rparr>"
    have res: "createTicketChannel ev g u subject b = (Returns ?c, b7)"
      using chain [OF uvr] by (simp add: b7_def)
    have c7: "channels b7 = ?c # channels b @ concurrent_channels ev"
      using c5 by (simp add: b7_def b6_def logDetailed_def emit_def)
    have tr7: "trace b7 = trace b
        @ [ChannelCreate ?c, TicketInsert ?c, LogDetailed ''ticket.db_unique_violation'' [],
           TicketInsert ?c]
        @ (if ticket_insert_retry ev = Inserted then []
           else [LogDetailed ''ticket.create_after_unique_failed'' []])
        @ [TicketHeader ?c, LogDetailed ''ticket.opened'' []]"
      using tr3
      by (simp add: b7_def b6_def b5_def b4_def insertTicketRow_def logDetailed_def emit_def)
    have t7: "tickets b7 = tickets b @ concurrent_tickets ev
        @ (if ticket_insert_retry ev = Inserted
           then [\<lparr>t_channelId = ?c, t_guildId = g, t_ownerId = u, t_subject = subject,
                  closedAt = None\<rparr>]
           else [])"
      using t3
      by (simp add: b7_def b6_def b5_def b4_def insertTicketRow_def logDetailed_def emit_def)
    have unlocked: "(g, u) \<notin> set (ticketCreationLocks b7)"
      by (simp add: b7_def)
    note res c7 tr7 t7 unlocked
  }
  note second = this
  {
    assume h: "find ?P (concurrent_tickets ev) = Some existing
        \<and> t_channelId existing \<noteq> [] \<and> t_channelId existing \<noteq> ?c
        \<and> t_channelId existing \<in> set (channels b) \<union> set (concurrent_channels ev)"
    show "fst (createTicketChannel ev g u subject b) = Returns (t_channelId existing)"
      using first(1) [OF h] by simp
    show "tickets (snd (createTicketChannel ev g u subject b)) = tickets b @ concurrent_tickets ev"
      using first(1,2) [OF h] by simp
    show "ChannelDeleteRun ?c \<in> set (trace (snd (createTicketChannel ev g u subject b)))"
      using first(1,3) [OF h] by simp
    show "(g, u) \<notin> set (ticketCreationLocks (snd (createTicketChannel ev g u subject b)))"
      using first(1,5) [OF h] by simp
    {
      assume nf: "\<not> fails ev ChannelDelete"
      show "?c \<notin> set (channels (snd (createTicketChannel ev g u subject b)))"
        using first(1) [OF h] first(4) [OF h nf] by simp
    }
  }
  {
    assume h: "find ?P (concurrent_tickets ev) = None
        \<and> \<not> fails ev ChannelSend \<and> \<not> fails ev ModLogSend"
    show "fst (createTicketChannel ev g u subject b) = Returns ?c"
      using second(1) [OF h] by simp
    show "channels (snd (createTicketChannel ev g u subject b))
        = ?c # channels b @ concurrent_channels ev"
      using second(1,2) [OF h] by simp
    show "trace (snd (createTicketChannel ev g u subject b))
        = trace b
          @ [ChannelCreate ?c, TicketInsert ?c, LogDetailed ''ticket.db_unique_violation'' [],
             TicketInsert ?c]
          @ (if ticket_insert_retry ev = Inserted then []
             else [LogDetailed ''ticket.create_after_unique_failed'' []])
          @ [TicketHeader ?c, LogDetailed ''ticket.opened'' []]"
      using second(1,3) [OF h] by simp
    show "tickets (snd (createTicketChannel ev g u subject b))
        = tickets b @ concurrent_tickets ev
          @ (if ticket_insert_retry ev = Inserted
             then [\<lparr>t_channelId = ?c, t_guildId = g, t_ownerId = u, t_subject = subject,
                    closedAt = None\<rparr>]
             else [])"
      using second(1,4) [OF h] by simp
    show "(g, u) \<notin> set (ticketCreationLocks (snd (createTicketChannel ev g u subject b)))"
      using second(1,5) [OF h] by simp
  }
qed

theorem unique_violation_at_insert_witness:
  "ticket_insert racing = UniqueViolation
   \<and> fst (createTicketChannel racing ''1'' ''42'' ''help'' (initial_bot 0)) = Returns ''800''
   \<and> map t_channelId (tickets (snd (createTicketChannel racing ''1'' ''42'' ''help'' (initial_bot 0))))
       = [''800'']
   \<and> ''900'' \<notin> set (channels (snd (createTicketChannel racing ''1'' ''42'' ''help'' (initial_bot 0))))
   \<and> ticket_insert (alone ''OK'') = UniqueViolation
   \<and> fst (createTicketChannel (alone ''OK'') ''1'' ''42'' ''help'' (initial_bot 0)) = Returns ''900''
   \<and> channels (snd (createTicketChannel (alone ''OK'') ''1'' ''42'' ''help'' (initial_bot 0)))
       = [''900'']"
proof -
  let ?t = "\<lparr>t_channelId = ''800'', t_guildId = ''1'', t_ownerId = ''42'', t_subject = ''help'',
      closedAt = None\<rparr>"
  let ?P = "\<lambda>t. t_guildId t = ''1'' \<and> t_ownerId t = ''42'' \<and> closedAt t = None"
  have ok: "\<not> fails racing DbFindOpenTicket" "\<not> fails racing EnsureCategory"
    "\<not> fails racing ChannelsCreate" "\<not> fails racing ChannelDelete"
    by (simp_all add: racing_def answering_def)
  have ok': "\<not> fails (alone ''OK'') DbFindOpenTicket" "\<not> fails (alone ''OK'') EnsureCategory"
    "\<not> fails (alone ''OK'') ChannelsCreate" "\<not> fails (alone ''OK'') ChannelSend"
    "\<not> fails (alone ''OK'') ModLogSend"
    by (simp_all add: alone_def answering_def)
  have none: "getOpenTicketByOwner ''1'' ''42'' (initial_bot 0) = None"
    by (simp add: getOpenTicketByOwner_def initial_bot_def)
  have uv: "ticket_insert racing = UniqueViolation" by (simp add: racing_def)
  have uv': "ticket_insert (alone ''OK'') = UniqueViolation" by (simp add: alone_def)
  have ex: "find ?P (concurrent_tickets racing) = Some ?t
      \<and> t_channelId ?t \<noteq> [] \<and> t_channelId ?t \<noteq> new_channel racing
      \<and> t_channelId ?t \<in> set (channels (initial_bot 0)) \<union> set (concurrent_channels racing)"
    by (simp add: racing_def answering_def)
  have ex': "find ?P (concurrent_tickets (alone ''OK'')) = None"
    by (simp add: alone_def answering_def)
  have new: "new_channel racing = ''900''" "new_channel (alone ''OK'') = ''900''"
    by (simp_all add: racing_def alone_def answering_def)
  have cts: "tickets (initial_bot 0) @ concurrent_tickets racing = [?t]"
    "channels (initial_bot 0) @ concurrent_channels (alone ''OK'') = []"
    by (simp_all add: racing_def alone_def answering_def initial_bot_def)
  have a: "fst (createTicketChannel racing ''1'' ''42'' ''help'' (initial_bot 0)) = Returns ''800''
      \<and> map t_channelId (tickets (snd (createTicketChannel racing ''1'' ''42'' ''help'' (initial_bot 0))))
          = [''800'']
      \<and> ''900'' \<notin> set (channels (snd (createTicketChannel racing ''1'' ''42'' ''help'' (initial_bot 0))))"
    using ex ok(4) new(1) cts(1)
      unique_violation_at_insert [OF ok(1) ok(2) ok(3) none uv, of ?t "''help''"]
    by simp
  have b: "fst (createTicketChannel (alone ''OK'') ''1'' ''42'' ''help'' (initial_bot 0)) = Returns ''900''
      \<and> channels (snd (createTicketChannel (alone ''OK'') ''1'' ''42'' ''help'' (initial_bot 0)))
          = [''900'']"
    using ex' ok'(4,5) new(2) cts(2)
      unique_violation_at_insert [OF ok'(1) ok'(2) ok'(3) none uv', of ?t "''help''"]
    by simp
  show ?thesis using uv uv' a b by simp
qed

text \<open>
  The claim as first written speaks of every uniqueness violation. When the database
  reports one and the lookup that follows finds no open ticket of the pair, the created
  channel is kept, a second insert is tried, and the created channel is returned.
\<close>

theorem unique_violation_counterexample:
  "ticket_insert (alone ''OK'') = UniqueViolation
   \<and> fst (createTicketChannel (alone ''OK'') ''1'' ''42'' ''help'' (initial_bot 0)) = Returns ''900''
   \<and> channels (snd (createTicketChannel (alone ''OK'') ''1'' ''42'' ''help'' (initial_bot 0)))
       = [''900'']
   \<and> map t_channelId
        (tickets (snd (createTicketChannel (alone ''OK'') ''1'' ''42'' ''help'' (initial_bot 0))))
       = [''900'']"
  by code_simp

text \<open>
  The remaining case: the lookup finds the open ticket of another request, but the
  channel of that ticket no longer exists. The created channel has been deleted by
  then; the second insert writes a row for it, announcing it throws, and the request
  ends with an error.
\<close>

lemma unique_violation_stale_ticket:
  "fst (createTicketChannel (racing\<lparr>concurrent_channels := []\<rparr>) ''1'' ''42'' ''help''
          (initial_bot 0)) = Throws
   \<and> channels (snd (createTicketChannel (racing\<lparr>concurrent_channels := []\<rparr>) ''1'' ''42''
          ''help'' (initial_bot 0))) = []
   \<and> map t_channelId (tickets (snd (createTicketChannel (racing\<lparr>concurrent_channels := []\<rparr>)
          ''1'' ''42'' ''help'' (initial_bot 0)))) = [''800'', ''900'']"
  by code_simp

end
